theory Spec2Isabelle
  imports Main "HOL-Library.Sublist" "HOL-Library.AList" "HOL-Library.Char_ord"
    "HOL-Library.List_Lexorder" "HOL-Library.Word"
begin

section \<open>Byte slices and strings\<close>

text \<open>
  A Go \<^verbatim>\<open>[]byte\<close> and a Go \<^verbatim>\<open>string\<close> are both sequences of 8-bit bytes; both
  are lists of \<^typ>\<open>char\<close> here (a \<^typ>\<open>char\<close> is one byte). The functions of this
  section are the functions of the Go packages \<^verbatim>\<open>bytes\<close>, \<^verbatim>\<open>strings\<close> and
  \<^verbatim>\<open>unicode/utf8\<close> that \<^verbatim>\<open>main.go\<close> calls, written from their documented
  behaviour.
\<close>

type_synonym bytes = "char list"

text \<open>\<^verbatim>\<open>bytes.Split(p, []byte("\n"))\<close>: the pieces between the newlines; one more
  piece than there are newlines, so the empty slice gives one empty piece.\<close>

fun Split :: "bytes \<Rightarrow> bytes list" where
  "Split [] = [[]]"
| "Split (c # cs) =
     (if c = CHR 0x0A then [] # Split cs
      else (case Split cs of [] \<Rightarrow> [[c]] | l # ls \<Rightarrow> (c # l) # ls))"

text \<open>White space as \<^verbatim>\<open>unicode.IsSpace\<close> defines it: the six ASCII characters
  tab, line feed, vertical tab, form feed, carriage return and space, and the
  code points U+0085, U+00A0, U+1680, U+2000 to U+200A, U+2028, U+2029, U+202F,
  U+205F and U+3000, given here by their UTF-8 encodings.\<close>

definition asciiSpace :: "char \<Rightarrow> bool" where
  "asciiSpace c \<longleftrightarrow>
     c = CHR 0x09 \<or> c = CHR 0x0A \<or> c = CHR 0x0B \<or> c = CHR 0x0C \<or> c = CHR 0x0D \<or> c = CHR 0x20"

definition unicodeSpaces :: "bytes list" where
  "unicodeSpaces =
     [[CHR 0xC2, CHR 0x85], [CHR 0xC2, CHR 0xA0], [CHR 0xE1, CHR 0x9A, CHR 0x80],
      [CHR 0xE2, CHR 0x80, CHR 0x80], [CHR 0xE2, CHR 0x80, CHR 0x81],
      [CHR 0xE2, CHR 0x80, CHR 0x82], [CHR 0xE2, CHR 0x80, CHR 0x83],
      [CHR 0xE2, CHR 0x80, CHR 0x84], [CHR 0xE2, CHR 0x80, CHR 0x85],
      [CHR 0xE2, CHR 0x80, CHR 0x86], [CHR 0xE2, CHR 0x80, CHR 0x87],
      [CHR 0xE2, CHR 0x80, CHR 0x88], [CHR 0xE2, CHR 0x80, CHR 0x89],
      [CHR 0xE2, CHR 0x80, CHR 0x8A], [CHR 0xE2, CHR 0x80, CHR 0xA8],
      [CHR 0xE2, CHR 0x80, CHR 0xA9], [CHR 0xE2, CHR 0x80, CHR 0xAF],
      [CHR 0xE2, CHR 0x81, CHR 0x9F], [CHR 0xE3, CHR 0x80, CHR 0x80]]"

text \<open>The width of the white-space character a slice starts with, and of the one
  it ends with; 0 when there is none.\<close>

definition leadingSpace :: "bytes \<Rightarrow> nat" where
  "leadingSpace s =
     (case s of
        [] \<Rightarrow> 0
      | c # _ \<Rightarrow>
          if asciiSpace c then 1
          else (case find (\<lambda>e. prefix e s) unicodeSpaces of
                  Some e \<Rightarrow> length e
                | None \<Rightarrow> 0))"

definition trailingSpace :: "bytes \<Rightarrow> nat" where
  "trailingSpace s =
     (case rev s of
        [] \<Rightarrow> 0
      | c # _ \<Rightarrow>
          if asciiSpace c then 1
          else (case find (\<lambda>e. suffix e s) unicodeSpaces of
                  Some e \<Rightarrow> length e
                | None \<Rightarrow> 0))"

function trimLeft :: "bytes \<Rightarrow> bytes" where
  "trimLeft s = (if leadingSpace s = 0 then s else trimLeft (drop (leadingSpace s) s))"
  by pat_completeness auto
termination
  by (relation "measure length") (auto simp: leadingSpace_def split: list.splits)

function trimRight :: "bytes \<Rightarrow> bytes" where
  "trimRight s =
     (if trailingSpace s = 0 then s else trimRight (take (length s - trailingSpace s) s))"
  by pat_completeness auto
termination
  by (relation "measure length")
     (auto simp: trailingSpace_def split: list.splits)

declare trimLeft.simps [simp del] trimRight.simps [simp del]

text \<open>\<^verbatim>\<open>bytes.TrimSpace\<close>: all leading and all trailing white space sliced off.\<close>

definition TrimSpace :: "bytes \<Rightarrow> bytes" where
  "TrimSpace s = trimRight (trimLeft s)"

text \<open>\<^verbatim>\<open>bytes.TrimPrefix\<close>: the slice without the prefix when it starts with it
  (one occurrence), the slice itself otherwise.\<close>

definition TrimPrefix :: "bytes \<Rightarrow> bytes \<Rightarrow> bytes" where
  "TrimPrefix s pre = (if prefix pre s then drop (length pre) s else s)"

text \<open>\<^verbatim>\<open>strings.Contains\<close>: the substring occurs at some position.\<close>

primrec Contains :: "string \<Rightarrow> string \<Rightarrow> bool" where
  "Contains [] sub = (sub = [])"
| "Contains (c # cs) sub = (prefix sub (c # cs) \<or> Contains cs sub)"

text \<open>\<^verbatim>\<open>utf8.DecodeRuneInString\<close>, the width it returns: the length of the UTF-8
  sequence the string starts with, and 1 for a byte that starts no valid
  sequence. \<open>seqLen\<close> is the length the first byte announces (0 for a byte that
  cannot start a sequence), \<open>acceptLo\<close> and \<open>acceptHi\<close> bound the second byte.\<close>

definition seqLen :: "nat \<Rightarrow> nat" where
  "seqLen b =
     (if b < 0x80 then 1
      else if b < 0xC2 then 0
      else if b < 0xE0 then 2
      else if b < 0xF0 then 3
      else if b < 0xF5 then 4
      else 0)"

definition acceptLo :: "nat \<Rightarrow> nat" where
  "acceptLo b = (if b = 0xE0 then 0xA0 else if b = 0xF0 then 0x90 else 0x80)"

definition acceptHi :: "nat \<Rightarrow> nat" where
  "acceptHi b = (if b = 0xED then 0x9F else if b = 0xF4 then 0x8F else 0xBF)"

definition contByte :: "char \<Rightarrow> bool" where
  "contByte c \<longleftrightarrow> (0x80::nat) \<le> of_char c \<and> of_char c \<le> (0xBF::nat)"

definition runeWidth :: "string \<Rightarrow> nat" where
  "runeWidth s =
     (case s of
        [] \<Rightarrow> 0
      | c # _ \<Rightarrow>
          let n = seqLen (of_char c) in
          if n \<le> 1 then 1
          else if length s < n then 1
          else if of_char (s ! 1) < acceptLo (of_char c) \<or> acceptHi (of_char c) < of_char (s ! 1)
            then 1
          else if n \<le> 2 then 2
          else if \<not> contByte (s ! 2) then 1
          else if n \<le> 3 then 3
          else if \<not> contByte (s ! 3) then 1
          else 4)"

text \<open>\<^verbatim>\<open>strings.ReplaceAll(s, old, new)\<close>: every non-overlapping instance of
  \<open>old\<close> replaced by \<open>new\<close>, scanning from the left. An empty \<open>old\<close> matches at
  the beginning of the string and after each UTF-8 sequence.\<close>

function replaceNonEmpty :: "string \<Rightarrow> string \<Rightarrow> string \<Rightarrow> string" where
  "replaceNonEmpty [] old new = []"
| "replaceNonEmpty (c # cs) old new =
     (if old \<noteq> [] \<and> prefix old (c # cs)
      then new @ replaceNonEmpty (drop (length old) (c # cs)) old new
      else c # replaceNonEmpty cs old new)"
  by pat_completeness auto
termination
  by (relation "measure (\<lambda>(s, old, new). length s)") auto

function afterEachRune :: "string \<Rightarrow> string \<Rightarrow> string" where
  "afterEachRune new s =
     (if s = [] then []
      else take (runeWidth s) s @ new @ afterEachRune new (drop (runeWidth s) s))"
  by pat_completeness auto
termination
  by (relation "measure (\<lambda>(new, s). length s)")
     (auto simp: runeWidth_def Let_def split: list.splits)

declare afterEachRune.simps [simp del]

definition ReplaceAll :: "string \<Rightarrow> string \<Rightarrow> string \<Rightarrow> string" where
  "ReplaceAll s old new =
     (if old = new then s
      else if old = [] then new @ afterEachRune new s
      else replaceNonEmpty s old new)"

section \<open>JSON values\<close>

text \<open>
  What \<^verbatim>\<open>json.Unmarshal\<close> stores in an \<^verbatim>\<open>interface{}\<close>: \<^verbatim>\<open>nil\<close>, a \<^verbatim>\<open>bool\<close>, a
  \<^verbatim>\<open>float64\<close>, a \<^verbatim>\<open>string\<close>, a \<^verbatim>\<open>[]interface{}\<close> or a \<^verbatim>\<open>map[string]interface{}\<close>.
  A Go map is an association list here, read with \<^const>\<open>map_of\<close> and written with
  \<^const>\<open>AList.update\<close>, which keeps one entry for each key. A \<^verbatim>\<open>float64\<close> is its 64
  bits; nothing modelled here computes with one.
\<close>

datatype float64 = Float64 "64 word"

datatype json =
    JNull
  | JBool bool
  | JNumber float64
  | JString (string_of: string)
  | JArray (elems_of: "json list")
  | JObject (fields_of: "(string \<times> json) list")

text \<open>The errors of \<^verbatim>\<open>encoding/json\<close>: a syntax error and a type error of the
  decoder, an unsupported value of the encoder.\<close>

datatype json_error = SyntaxError | UnmarshalTypeError | UnsupportedValueError

type_synonym unmarshal = "bytes \<Rightarrow> json_error + json"
type_synonym marshal = "json \<Rightarrow> json_error + bytes"

subsection \<open>A reference codec\<close>

text \<open>
  The functions of \<^verbatim>\<open>main.go\<close> are modelled for any decoder and any encoder (they
  take them as arguments), and the theorems about them hold for all of them.
  To run the model on concrete bodies, this subsection gives a decoder and an
  encoder that follow \<^verbatim>\<open>encoding/json\<close> on the part of JSON made of white space,
  objects, arrays, the literals \<^verbatim>\<open>true\<close>, \<^verbatim>\<open>false\<close>, \<^verbatim>\<open>null\<close>, and strings of
  ASCII characters without escapes. The scanner answers \<open>Outside\<close> when it
  meets anything else (a number, an escape sequence, a non-ASCII byte) or when
  its fuel runs out; an input is judged invalid only when the offending byte
  comes before any such thing.
\<close>

datatype 'a outcome = Done 'a | Fail json_error | Outside

fun skipWS :: "bytes \<Rightarrow> bytes" where
  "skipWS [] = []"
| "skipWS (c # cs) =
     (if c = CHR 0x20 \<or> c = CHR 0x09 \<or> c = CHR 0x0D \<or> c = CHR 0x0A then skipWS cs else c # cs)"

text \<open>A string literal after its opening quote; \<open>acc\<close> holds the characters read,
  last first.\<close>

fun scanString :: "string \<Rightarrow> bytes \<Rightarrow> (string \<times> bytes) outcome" where
  "scanString acc [] = Fail SyntaxError"
| "scanString acc (c # cs) =
     (if c = CHR 0x22 then Done (rev acc, cs)
      else if c = CHR 0x5C then Outside
      else if of_char c < (0x20::nat) then Fail SyntaxError
      else if (0x80::nat) \<le> of_char c then Outside
      else scanString (c # acc) cs)"

definition scanLiteral :: "string \<Rightarrow> json \<Rightarrow> bytes \<Rightarrow> (json \<times> bytes) outcome" where
  "scanLiteral lit v s = (if prefix lit s then Done (v, drop (length lit) s) else Fail SyntaxError)"

definition isDigit :: "char \<Rightarrow> bool" where
  "isDigit c \<longleftrightarrow> (0x30::nat) \<le> of_char c \<and> of_char c \<le> (0x39::nat)"

text \<open>The parser proper. The first argument is fuel (every call uses one unit),
  the second the number of arrays and objects around the value. The decoder
  of Go refuses a value nested deeper than 10000.\<close>

fun parseValue :: "nat \<Rightarrow> nat \<Rightarrow> bytes \<Rightarrow> (json \<times> bytes) outcome"
  and parseElems :: "nat \<Rightarrow> nat \<Rightarrow> json list \<Rightarrow> bytes \<Rightarrow> (json \<times> bytes) outcome"
  and parseMembers ::
    "nat \<Rightarrow> nat \<Rightarrow> (string \<times> json) list \<Rightarrow> bytes \<Rightarrow> (json \<times> bytes) outcome"
where
  "parseValue 0 depth s = Outside"
| "parseValue (Suc n) depth s =
     (case skipWS s of
        [] \<Rightarrow> Fail SyntaxError
      | c # cs \<Rightarrow>
          if c = CHR ''{'' then
            (if 10000 \<le> depth then Fail SyntaxError
             else (case skipWS cs of
                     [] \<Rightarrow> Fail SyntaxError
                   | d # ds \<Rightarrow>
                       if d = CHR ''}'' then Done (JObject [], ds)
                       else parseMembers n (Suc depth) [] (d # ds)))
          else if c = CHR ''['' then
            (if 10000 \<le> depth then Fail SyntaxError
             else (case skipWS cs of
                     [] \<Rightarrow> Fail SyntaxError
                   | d # ds \<Rightarrow>
                       if d = CHR '']'' then Done (JArray [], ds)
                       else parseElems n (Suc depth) [] (d # ds)))
          else if c = CHR 0x22 then
            (case scanString [] cs of
               Done (str, r) \<Rightarrow> Done (JString str, r)
             | Fail e \<Rightarrow> Fail e
             | Outside \<Rightarrow> Outside)
          else if c = CHR ''t'' then scanLiteral ''true'' (JBool True) (c # cs)
          else if c = CHR ''f'' then scanLiteral ''false'' (JBool False) (c # cs)
          else if c = CHR ''n'' then scanLiteral ''null'' JNull (c # cs)
          else if c = CHR ''-'' \<or> isDigit c then Outside
          else Fail SyntaxError)"
| "parseElems 0 depth acc s = Outside"
| "parseElems (Suc n) depth acc s =
     (case parseValue n depth s of
        Fail e \<Rightarrow> Fail e
      | Outside \<Rightarrow> Outside
      | Done (v, r) \<Rightarrow>
          (case skipWS r of
             [] \<Rightarrow> Fail SyntaxError
           | c # cs \<Rightarrow>
               if c = CHR '','' then parseElems n depth (acc @ [v]) cs
               else if c = CHR '']'' then Done (JArray (acc @ [v]), cs)
               else Fail SyntaxError))"
| "parseMembers 0 depth acc s = Outside"
| "parseMembers (Suc n) depth acc s =
     (case skipWS s of
        [] \<Rightarrow> Fail SyntaxError
      | c # cs \<Rightarrow>
          if c \<noteq> CHR 0x22 then Fail SyntaxError
          else
            (case scanString [] cs of
               Fail e \<Rightarrow> Fail e
             | Outside \<Rightarrow> Outside
             | Done (k, r) \<Rightarrow>
                 (case skipWS r of
                    [] \<Rightarrow> Fail SyntaxError
                  | d # ds \<Rightarrow>
                      if d \<noteq> CHR '':'' then Fail SyntaxError
                      else
                        (case parseValue n depth ds of
                           Fail e \<Rightarrow> Fail e
                         | Outside \<Rightarrow> Outside
                         | Done (v, r') \<Rightarrow>
                             (case skipWS r' of
                                [] \<Rightarrow> Fail SyntaxError
                              | e # es \<Rightarrow>
                                  if e = CHR '','' then
                                    parseMembers n depth (AList.update k v acc) es
                                  else if e = CHR ''}'' then
                                    Done (JObject (AList.update k v acc), es)
                                  else Fail SyntaxError)))))"

text \<open>\<^verbatim>\<open>json.Unmarshal(data, &m)\<close> for \<^verbatim>\<open>var m map[string]interface{}\<close>: the whole
  input is one JSON value; an object fills the map, \<^verbatim>\<open>null\<close> leaves it \<^verbatim>\<open>nil\<close>
  (\<open>JNull\<close>), any other value is a type error. \<open>refDecode\<close> answers \<open>None\<close> for
  an input outside the part covered.\<close>

definition refDecode :: "bytes \<Rightarrow> (json_error + json) option" where
  "refDecode data =
     (case parseValue (Suc (Suc (length data + length data))) 0 data of
        Outside \<Rightarrow> None
      | Fail e \<Rightarrow> Some (Inl e)
      | Done (v, rest) \<Rightarrow>
          if skipWS rest \<noteq> [] then Some (Inl SyntaxError)
          else (case v of
                  JObject m \<Rightarrow> Some (Inr v)
                | JNull \<Rightarrow> Some (Inr v)
                | _ \<Rightarrow> Some (Inl UnmarshalTypeError)))"

text \<open>\<^verbatim>\<open>json.Marshal\<close>: no white space, the keys of an object in sorted order, and in
  strings the double quote and the backslash escaped with a backslash, and the
  characters \<^verbatim>\<open><\<close>, \<^verbatim>\<open>>\<close> and \<^verbatim>\<open>&\<close> written as the escapes u003c, u003e and
  u0026 after a backslash. \<open>refEncode\<close> answers \<open>None\<close> for a value with a number,
  a control character or a non-ASCII byte.\<close>

definition encodeChar :: "char \<Rightarrow> bytes option" where
  "encodeChar c =
     (if c = CHR 0x22 then Some [CHR 0x5C, CHR 0x22]
      else if c = CHR 0x5C then Some [CHR 0x5C, CHR 0x5C]
      else if c = CHR ''<'' then Some (CHR 0x5C # ''u003c'')
      else if c = CHR ''>'' then Some (CHR 0x5C # ''u003e'')
      else if c = CHR ''&'' then Some (CHR 0x5C # ''u0026'')
      else if of_char c < (0x20::nat) \<or> (0x80::nat) \<le> of_char c then None
      else Some [c])"

fun collect :: "'a option list \<Rightarrow> 'a list option" where
  "collect [] = Some []"
| "collect (x # xs) =
     (case x of
        None \<Rightarrow> None
      | Some y \<Rightarrow> (case collect xs of None \<Rightarrow> None | Some ys \<Rightarrow> Some (y # ys)))"

fun joinComma :: "bytes list \<Rightarrow> bytes" where
  "joinComma [] = []"
| "joinComma [x] = x"
| "joinComma (x # y # ys) = x @ CHR '','' # joinComma (y # ys)"

definition encodeString :: "string \<Rightarrow> bytes option" where
  "encodeString s =
     (case collect (map encodeChar s) of
        None \<Rightarrow> None
      | Some parts \<Rightarrow> Some (CHR 0x22 # concat parts @ [CHR 0x22]))"

fun refEncode :: "json \<Rightarrow> bytes option" where
  "refEncode JNull = Some ''null''"
| "refEncode (JBool b) = Some (if b then ''true'' else ''false'')"
| "refEncode (JNumber x) = None"
| "refEncode (JString s) = encodeString s"
| "refEncode (JArray vs) =
     (case collect (map refEncode vs) of
        None \<Rightarrow> None
      | Some parts \<Rightarrow> Some (CHR ''['' # joinComma parts @ '']''))"
| "refEncode (JObject m) =
     (case collect (map (\<lambda>kv. case encodeString (fst kv) of
                                  None \<Rightarrow> None
                                | Some k \<Rightarrow> (case refEncode (snd kv) of
                                              None \<Rightarrow> None
                                            | Some v \<Rightarrow> Some (k @ CHR '':'' # v)))
                         (sort_key fst m)) of
        None \<Rightarrow> None
      | Some parts \<Rightarrow> Some (CHR ''{'' # joinComma parts @ ''}''))"

text \<open>
  The decoder and the encoder given to the model in the examples. Where the
  reference codec answers \<open>None\<close> they are left unspecified (\<^term>\<open>the None\<close>), so
  that the model says nothing about a body or a value outside the part
  covered. \<^verbatim>\<open>json.Marshal\<close> does not fail on a value that \<^verbatim>\<open>json.Unmarshal\<close>
  produced.
\<close>

definition refUnmarshal :: unmarshal where
  "refUnmarshal data = the (refDecode data)"

definition refMarshal :: marshal where
  "refMarshal v = Inr (the (refEncode v))"

section \<open>Configuration, headers, log and the client's writer\<close>

text \<open>The global \<^verbatim>\<open>config\<close>. \<^verbatim>\<open>PromptModifications\<close> is a Go map: its entries, one
  for each keyword.\<close>

record config =
  OpenAIAPIURL :: string
  OpenAIAPIKey :: string
  PromptModifications :: "(string \<times> string) list"

text \<open>
  A \<^verbatim>\<open>for keyword, replacement := range config.PromptModifications\<close> loop visits
  every entry of the map once, in an order the language leaves open and that
  may change from one loop to the next. The model takes the order as an
  argument: \<open>ord i\<close> is the sequence of entries the loop run for the message
  at index \<open>i\<close> visits. \<open>rangeOrder\<close> says that a sequence is such an order.
\<close>

type_synonym iteration = "nat \<Rightarrow> (string \<times> string) list"

definition rangeOrder :: "(string \<times> string) list \<Rightarrow> (string \<times> string) list \<Rightarrow> bool" where
  "rangeOrder table kvs \<longleftrightarrow> distinct (map fst kvs) \<and> set kvs = set table"

text \<open>An \<^verbatim>\<open>http.Header\<close>, with keys in canonical form (as the server stores them and
  as \<^verbatim>\<open>main.go\<close> writes them).\<close>

type_synonym header = "(string \<times> string list) list"

definition Header_Get :: "header \<Rightarrow> string \<Rightarrow> string" where
  "Header_Get h k = (case map_of h k of Some (v # _) \<Rightarrow> v | _ \<Rightarrow> [])"

definition Header_Set :: "header \<Rightarrow> string \<Rightarrow> string \<Rightarrow> header" where
  "Header_Set h k v = AList.update k [v] h"

definition Header_Add :: "header \<Rightarrow> string \<Rightarrow> string \<Rightarrow> header" where
  "Header_Add h k v = AList.update k ((case map_of h k of Some vs \<Rightarrow> vs | None \<Rightarrow> []) @ [v]) h"

definition Header_Del :: "header \<Rightarrow> string \<Rightarrow> header" where
  "Header_Del h k = AList.delete k h"

text \<open>One constructor for each \<^verbatim>\<open>logger.Printf\<close> of \<^verbatim>\<open>main.go\<close>, with its
  arguments.\<close>

datatype log_entry =
    LogReceived string string
  | LogRequestHeader header
  | LogReadBodyError
  | LogRequest string string bytes
  | LogStreamEnd
  | LogStreamParseError json_error
  | LogStreamChunk bytes
  | LogRequestParseError json_error
  | LogOriginalPrompt string
  | LogModifiedPrompt string
  | LogMarshalError json_error
  | LogStreamStart nat
  | LogResponse nat bytes
  | LogAIReply string
  | LogReplyParseError json_error

text \<open>
  \<^verbatim>\<open>gin.ResponseWriter\<close>, the writer to the client (\<^verbatim>\<open>c.Writer\<close>): the header map,
  the status to send (200 until set), the status line and header as they went
  out with the first write, and the payload of every \<^verbatim>\<open>Write\<close> call made on the
  writer, in order. The record keeps the calls; it does not decide what
  \<^verbatim>\<open>net/http\<close> does with them. When the header sent declares no
  \<^verbatim>\<open>Content-Length\<close>, every call goes out to the client as it is; when it
  declares one, \<^verbatim>\<open>net/http\<close> refuses a call that goes beyond it, and nothing is
  stated here about the bytes that reach the client.
\<close>

record ResponseWriter =
  rw_header :: header
  rw_status :: nat
  rw_sent :: "(nat \<times> header) option"
  rw_writes :: "bytes list"

definition newResponseWriter :: ResponseWriter where
  "newResponseWriter = \<lparr>rw_header = [], rw_status = 200, rw_sent = None, rw_writes = []\<rparr>"

definition Written :: "ResponseWriter \<Rightarrow> bool" where
  "Written w \<longleftrightarrow> rw_sent w \<noteq> None"

definition gin_WriteHeader :: "nat \<Rightarrow> ResponseWriter \<Rightarrow> ResponseWriter" where
  "gin_WriteHeader code w =
     (if 0 < code \<and> rw_status w \<noteq> code
      then (if Written w then w else w\<lparr>rw_status := code\<rparr>)
      else w)"

definition gin_WriteHeaderNow :: "ResponseWriter \<Rightarrow> ResponseWriter" where
  "gin_WriteHeaderNow w =
     (if \<not> Written w then w\<lparr>rw_sent := Some (rw_status w, rw_header w)\<rparr> else w)"

definition gin_Write :: "bytes \<Rightarrow> ResponseWriter \<Rightarrow> ResponseWriter" where
  "gin_Write data w =
     (let w1 = gin_WriteHeaderNow w in w1\<lparr>rw_writes := rw_writes w1 @ [data]\<rparr>)"

text \<open>The payloads of all \<^verbatim>\<open>Write\<close> calls, in order: the bytes the client receives
  when the response declares no \<^verbatim>\<open>Content-Length\<close>.\<close>

definition received :: "ResponseWriter \<Rightarrow> bytes" where
  "received w = concat (rw_writes w)"

text \<open>\<^verbatim>\<open>c.Header(key, value)\<close> and \<^verbatim>\<open>c.Data(code, contentType, data)\<close> of gin.\<close>

definition gin_Header :: "string \<Rightarrow> string \<Rightarrow> ResponseWriter \<Rightarrow> ResponseWriter" where
  "gin_Header k v w =
     w\<lparr>rw_header := (if v = [] then Header_Del (rw_header w) k else Header_Set (rw_header w) k v)\<rparr>"

definition bodyAllowedForStatus :: "nat \<Rightarrow> bool" where
  "bodyAllowedForStatus code \<longleftrightarrow> \<not> (100 \<le> code \<and> code \<le> 199) \<and> code \<noteq> 204 \<and> code \<noteq> 304"

definition writeContentType :: "string \<Rightarrow> ResponseWriter \<Rightarrow> ResponseWriter" where
  "writeContentType ct w =
     (case map_of (rw_header w) ''Content-Type'' of
        Some (v # vs) \<Rightarrow> w
      | _ \<Rightarrow> w\<lparr>rw_header := AList.update ''Content-Type'' [ct] (rw_header w)\<rparr>)"

definition gin_Data :: "nat \<Rightarrow> string \<Rightarrow> bytes \<Rightarrow> ResponseWriter \<Rightarrow> ResponseWriter" where
  "gin_Data code ct data w =
     (let w1 = gin_WriteHeader code w in
      if \<not> bodyAllowedForStatus code then gin_WriteHeaderNow (writeContentType ct w1)
      else gin_Write data (writeContentType ct w1))"

text \<open>
  The upstream's response as \<^verbatim>\<open>httputil.ReverseProxy\<close> hands it on: status,
  header, and the body as the chunks in which it is read. After
  \<^verbatim>\<open>ModifyResponse\<close> the proxy copies the header into the writer's header map,
  calls the writer's \<^verbatim>\<open>WriteHeader\<close> with the status, and calls the writer's
  \<^verbatim>\<open>Write\<close> once for each chunk. The writer is the wrapper \<^verbatim>\<open>main.go\<close> passes
  to \<^verbatim>\<open>ServeHTTP\<close>, so its methods are arguments here.
\<close>

record response =
  resp_status :: nat
  resp_header :: header
  resp_body :: "bytes list"

definition copyHeader :: "header \<Rightarrow> header \<Rightarrow> header" where
  "copyHeader dst src = fold (\<lambda>(k, vs) h. fold (\<lambda>v h'. Header_Add h' k v) vs h) src dst"

definition copyResponse ::
  "('w \<Rightarrow> header) \<Rightarrow> (header \<Rightarrow> 'w \<Rightarrow> 'w) \<Rightarrow> (nat \<Rightarrow> 'w \<Rightarrow> 'w) \<Rightarrow> (bytes \<Rightarrow> 'w \<Rightarrow> 'w) \<Rightarrow>
   response \<Rightarrow> 'w \<Rightarrow> 'w" where
  "copyResponse getHeader setHeader writeHeader write resp w =
     fold write (resp_body resp)
       (writeHeader (resp_status resp)
          (setHeader (copyHeader (getHeader w) (resp_header resp)) w))"

text \<open>A \<^verbatim>\<open>bytes.Buffer\<close> read through the proxy's 32 KB copy buffer.\<close>

function chunksOf :: "nat \<Rightarrow> bytes \<Rightarrow> bytes list" where
  "chunksOf n b = (if n = 0 \<or> b = [] then [] else take n b # chunksOf n (drop n b))"
  by pat_completeness auto
termination
  by (relation "measure (\<lambda>(n, b). length b)") auto

declare chunksOf.simps [simp del]

section \<open>The proxy (\<^verbatim>\<open>main.go\<close>)\<close>

subsection \<open>\<^verbatim>\<open>streamResponseWriter\<close>\<close>

record streamResponseWriter =
  sw_ResponseWriter :: ResponseWriter
  sw_logger :: "log_entry list"

text \<open>The body of the loop of \<^verbatim>\<open>streamResponseWriter.Write\<close>: what it logs for
  one line.\<close>

definition logLine :: "unmarshal \<Rightarrow> bytes \<Rightarrow> log_entry list" where
  "logLine unm line0 =
     (let line = TrimSpace line0 in
      if length line = 0 then []
      else
        let trimmedLine = TrimPrefix line ''data: '' in
        if trimmedLine = ''[DONE]'' then [LogStreamEnd]
        else (case unm trimmedLine of
                Inl err \<Rightarrow> [LogStreamParseError err]
              | Inr chunk \<Rightarrow> [LogStreamChunk trimmedLine]))"

fun logLines :: "unmarshal \<Rightarrow> bytes list \<Rightarrow> log_entry list \<Rightarrow> log_entry list" where
  "logLines unm [] lg = lg"
| "logLines unm (line # lines) lg = logLines unm lines (lg @ logLine unm line)"

definition streamResponseWriter_Write ::
  "unmarshal \<Rightarrow> bytes \<Rightarrow> streamResponseWriter \<Rightarrow> streamResponseWriter" where
  "streamResponseWriter_Write unm p w =
     (let lines = Split p;
          lg = logLines unm lines (sw_logger w)
      in \<lparr>sw_ResponseWriter = gin_Write p (sw_ResponseWriter w), sw_logger = lg\<rparr>)"

subsection \<open>\<^verbatim>\<open>responseBodyWriter\<close>\<close>

record responseBodyWriter =
  bw_ResponseWriter :: ResponseWriter
  bw_body :: bytes
  bw_statusCode :: nat

definition responseBodyWriter_Write :: "bytes \<Rightarrow> responseBodyWriter \<Rightarrow> responseBodyWriter" where
  "responseBodyWriter_Write b w =
     w\<lparr>bw_body := bw_body w @ b, bw_ResponseWriter := gin_Write b (bw_ResponseWriter w)\<rparr>"

definition responseBodyWriter_WriteHeader :: "nat \<Rightarrow> responseBodyWriter \<Rightarrow> responseBodyWriter" where
  "responseBodyWriter_WriteHeader statusCode w =
     w\<lparr>bw_statusCode := statusCode,
       bw_ResponseWriter := gin_WriteHeader statusCode (bw_ResponseWriter w)\<rparr>"

subsection \<open>\<^verbatim>\<open>modifyRequestBody\<close>\<close>

text \<open>The inner loop over the table, in the order \<open>kvs\<close>.\<close>

fun applyModifications :: "(string \<times> string) list \<Rightarrow> string \<Rightarrow> string" where
  "applyModifications [] content = content"
| "applyModifications ((keyword, replacement) # kvs) content =
     applyModifications kvs (ReplaceAll content keyword replacement)"

text \<open>The body of the loop over \<^verbatim>\<open>messages\<close>: the log entries and the element
  stored back.\<close>

definition modifyMessage :: "(string \<times> string) list \<Rightarrow> json \<Rightarrow> log_entry list \<times> json" where
  "modifyMessage kvs msg =
     (case msg of
        JObject message \<Rightarrow>
          (case map_of message ''content'' of
             Some (JString originalContent) \<Rightarrow>
               let content = applyModifications kvs originalContent in
               (LogOriginalPrompt originalContent #
                  (if content \<noteq> originalContent then [LogModifiedPrompt content] else []),
                JObject (AList.update ''content'' (JString content) message))
           | _ \<Rightarrow> ([], msg))
      | _ \<Rightarrow> ([], msg))"

fun modifyMessages :: "iteration \<Rightarrow> nat \<Rightarrow> json list \<Rightarrow> log_entry list \<times> json list" where
  "modifyMessages ord i [] = ([], [])"
| "modifyMessages ord i (msg # msgs) =
     (let (lg1, msg') = modifyMessage (ord i) msg;
          (lg2, msgs') = modifyMessages ord (Suc i) msgs
      in (lg1 @ lg2, msg' # msgs'))"

text \<open>Lines 208 to 232: the decoded request rewritten in place.\<close>

definition modifyRequest :: "iteration \<Rightarrow> json \<Rightarrow> log_entry list \<times> json" where
  "modifyRequest ord request =
     (case request of
        JObject r \<Rightarrow>
          (case map_of r ''messages'' of
             Some (JArray messages) \<Rightarrow>
               let (lg, messages') = modifyMessages ord 0 messages
               in (lg, JObject (AList.update ''messages'' (JArray messages') r))
           | _ \<Rightarrow> ([], request))
      | _ \<Rightarrow> ([], request))"

definition modifyRequestBody ::
  "unmarshal \<Rightarrow> marshal \<Rightarrow> iteration \<Rightarrow> bytes \<Rightarrow> log_entry list \<times> bytes" where
  "modifyRequestBody unm mar ord body =
     (case unm body of
        Inl err \<Rightarrow> ([LogRequestParseError err], body)
      | Inr request \<Rightarrow>
          let (lg, request') = modifyRequest ord request in
          (case mar request' of
             Inl err \<Rightarrow> (lg @ [LogMarshalError err], body)
           | Inr modifiedBody \<Rightarrow> (lg, modifiedBody)))"

text \<open>The two type assertions of the loop, as readers of a decoded value: the
  \<^verbatim>\<open>messages\<close> array of a request and the string \<^verbatim>\<open>content\<close> of a message, when
  they are there.\<close>

definition messagesOf :: "json \<Rightarrow> json list option" where
  "messagesOf request =
     (case request of
        JObject r \<Rightarrow> (case map_of r ''messages'' of Some (JArray messages) \<Rightarrow> Some messages | _ \<Rightarrow> None)
      | _ \<Rightarrow> None)"

definition contentOf :: "json \<Rightarrow> string option" where
  "contentOf msg =
     (case msg of
        JObject message \<Rightarrow>
          (case map_of message ''content'' of Some (JString content) \<Rightarrow> Some content | _ \<Rightarrow> None)
      | _ \<Rightarrow> None)"

text \<open>No keyword of the table occurs in the string content of any message of a
  decoded request (\<open>ord i\<close> lists the table for the message at index \<open>i\<close>).\<close>

definition keywordFree :: "iteration \<Rightarrow> json \<Rightarrow> bool" where
  "keywordFree ord request =
     (case messagesOf request of
        None \<Rightarrow> True
      | Some messages \<Rightarrow>
          list_all (\<lambda>(i, msg). case contentOf msg of
                                 None \<Rightarrow> True
                               | Some content \<Rightarrow> list_all (\<lambda>(keyword, replacement).
                                     \<not> Contains content keyword) (ord i))
                   (enumerate 0 messages))"

text \<open>No message of a decoded request has a string \<^verbatim>\<open>content\<close>: the request has
  no \<^verbatim>\<open>messages\<close> array, or the second type assertion of the loop fails at
  every element.\<close>

definition noStringContent :: "json \<Rightarrow> bool" where
  "noStringContent request =
     (case messagesOf request of
        None \<Rightarrow> True
      | Some messages \<Rightarrow> list_all (\<lambda>msg. contentOf msg = None) messages)"

text \<open>The Chat Request Body of the specification's data model, written after its
  words and used only to name the bodies it calls not chat-shaped: an object
  with an array field \<^verbatim>\<open>messages\<close>, each element an object with a \<^verbatim>\<open>content\<close>
  string field.\<close>

definition specChatShaped :: "json \<Rightarrow> bool" where
  "specChatShaped request =
     (case messagesOf request of
        None \<Rightarrow> False
      | Some messages \<Rightarrow> list_all (\<lambda>msg. contentOf msg \<noteq> None) messages)"

subsection \<open>\<^verbatim>\<open>logResponse\<close>\<close>

text \<open>The response body is taken as read without error.\<close>

definition logResponse :: "response \<Rightarrow> log_entry list \<times> response" where
  "logResponse resp =
     (let h = Header_Del (Header_Del (Header_Del (resp_header resp)
                ''Access-Control-Allow-Origin'') ''Access-Control-Allow-Methods'')
                ''Access-Control-Allow-Headers''
      in if Header_Get h ''Content-Type'' = ''text/event-stream''
         then ([LogStreamStart (resp_status resp)], resp\<lparr>resp_header := h\<rparr>)
         else
           let body = concat (resp_body resp) in
           ([LogResponse (resp_status resp) body],
            resp\<lparr>resp_header := h, resp_body := chunksOf 32768 body\<rparr>))"

subsection \<open>\<^verbatim>\<open>handleStreamRequest\<close> and \<^verbatim>\<open>handleNonStreamRequest\<close>\<close>

text \<open>Both take the upstream's response and the state before the call (log and
  client writer) and give the state after it. \<^verbatim>\<open>proxy.ServeHTTP\<close> is
  \<^const>\<open>logResponse\<close> followed by \<^const>\<open>copyResponse\<close> on the wrapper.\<close>

definition handleStreamRequest ::
  "unmarshal \<Rightarrow> response \<Rightarrow> log_entry list \<times> ResponseWriter \<Rightarrow> log_entry list \<times> ResponseWriter"
where
  "handleStreamRequest unm resp st =
     (let w = gin_Header ''Transfer-Encoding'' ''chunked''
                (gin_Header ''Connection'' ''keep-alive''
                  (gin_Header ''Cache-Control'' ''no-cache''
                    (gin_Header ''Content-Type'' ''text/event-stream'' (snd st))));
          responseWriter = gin_WriteHeader 200 w;
          (lg, resp') = logResponse resp;
          proxyWriter = \<lparr>sw_ResponseWriter = responseWriter, sw_logger = fst st @ lg\<rparr>;
          proxyWriter' =
            copyResponse (\<lambda>pw. rw_header (sw_ResponseWriter pw))
              (\<lambda>h pw. pw\<lparr>sw_ResponseWriter := (sw_ResponseWriter pw)\<lparr>rw_header := h\<rparr>\<rparr>)
              (\<lambda>code pw. pw\<lparr>sw_ResponseWriter := gin_WriteHeader code (sw_ResponseWriter pw)\<rparr>)
              (streamResponseWriter_Write unm) resp' proxyWriter
      in (sw_logger proxyWriter', sw_ResponseWriter proxyWriter'))"

text \<open>The audit of the reply: \<^verbatim>\<open>choices[0].message.content\<close>, when it is there
  and a string.\<close>

definition replyLog :: "unmarshal \<Rightarrow> bytes \<Rightarrow> log_entry list" where
  "replyLog unm body =
     (case unm body of
        Inl err \<Rightarrow> [LogReplyParseError err]
      | Inr resp \<Rightarrow>
          (case resp of
             JObject r \<Rightarrow>
               (case map_of r ''choices'' of
                  Some (JArray (JObject choice # _)) \<Rightarrow>
                    (case map_of choice ''message'' of
                       Some (JObject message) \<Rightarrow>
                         (case map_of message ''content'' of
                            Some (JString content) \<Rightarrow> [LogAIReply content]
                          | _ \<Rightarrow> [])
                     | _ \<Rightarrow> [])
                | _ \<Rightarrow> [])
           | _ \<Rightarrow> []))"

definition handleNonStreamRequest ::
  "unmarshal \<Rightarrow> response \<Rightarrow> log_entry list \<times> ResponseWriter \<Rightarrow> log_entry list \<times> ResponseWriter"
where
  "handleNonStreamRequest unm resp st =
     (let responseWriter = \<lparr>bw_ResponseWriter = snd st, bw_body = [], bw_statusCode = 0\<rparr>;
          (lg, resp') = logResponse resp;
          responseWriter' =
            copyResponse (\<lambda>bw. rw_header (bw_ResponseWriter bw))
              (\<lambda>h bw. bw\<lparr>bw_ResponseWriter := (bw_ResponseWriter bw)\<lparr>rw_header := h\<rparr>\<rparr>)
              responseBodyWriter_WriteHeader responseBodyWriter_Write resp' responseWriter;
          body = bw_body responseWriter';
          lg' = fst st @ lg @ [LogResponse (bw_statusCode responseWriter') body] @ replyLog unm body
      in (lg',
          gin_Data (bw_statusCode responseWriter')
            (Header_Get (rw_header (bw_ResponseWriter responseWriter')) ''Content-Type'')
            body (bw_ResponseWriter responseWriter')))"

subsection \<open>\<^verbatim>\<open>handleProxy\<close>\<close>

text \<open>The inbound request. Reading the body gives its bytes or fails.\<close>

datatype body = NoBody | ReadError | Body bytes

record request =
  req_method :: string
  req_path :: string
  req_host :: string
  req_header :: header
  req_body :: body
  req_ContentLength :: int

text \<open>
  The \<^verbatim>\<open>Director\<close> closure of lines 84 to 98. \<open>director\<close> is the proxy's own
  director, \<open>host\<close> is \<^verbatim>\<open>openAIURL.Host\<close>, \<open>inbound\<close> is the header of the
  request gin received (\<^verbatim>\<open>c.GetHeader\<close> reads it), \<open>req\<close> is the outbound
  request under construction.
\<close>

definition Director ::
  "(request \<Rightarrow> request) \<Rightarrow> string \<Rightarrow> config \<Rightarrow> header \<Rightarrow> request \<Rightarrow> request" where
  "Director director host cfg inbound req0 =
     (let req = (director req0)\<lparr>req_host := host\<rparr>;
          userAPIKey = Header_Get inbound ''Authorization''
      in if userAPIKey \<noteq> []
         then req\<lparr>req_header := Header_Set (req_header req) ''Authorization'' userAPIKey\<rparr>
         else req\<lparr>req_header :=
                   Header_Set (req_header req) ''Authorization'' (''Bearer '' @ OpenAIAPIKey cfg)\<rparr>)"

text \<open>
  What \<^verbatim>\<open>httputil.ReverseProxy\<close> does to the outbound request once the
  \<^verbatim>\<open>Director\<close> has returned: it removes the hop-by-hop headers, which are the
  headers named in the values of \<^verbatim>\<open>Connection\<close> (split at commas, trimmed, in
  canonical form) and a fixed list. The headers it sets afterwards (\<^verbatim>\<open>Te\<close>,
  \<^verbatim>\<open>Connection\<close>, \<^verbatim>\<open>Upgrade\<close>, \<^verbatim>\<open>X-Forwarded-For\<close>, \<^verbatim>\<open>User-Agent\<close>) are left out.
\<close>

fun splitComma :: "string \<Rightarrow> string list" where
  "splitComma [] = [[]]"
| "splitComma (c # cs) =
     (if c = CHR '','' then [] # splitComma cs
      else (case splitComma cs of [] \<Rightarrow> [[c]] | l # ls \<Rightarrow> (c # l) # ls))"

text \<open>\<^verbatim>\<open>textproto.TrimString\<close>: ASCII space, tab, line feed and carriage return
  taken off both ends.\<close>

definition asciiBlank :: "char \<Rightarrow> bool" where
  "asciiBlank c \<longleftrightarrow> c = CHR 0x20 \<or> c = CHR 0x09 \<or> c = CHR 0x0A \<or> c = CHR 0x0D"

definition TrimString :: "string \<Rightarrow> string" where
  "TrimString s = rev (dropWhile asciiBlank (rev (dropWhile asciiBlank s)))"

text \<open>\<^verbatim>\<open>textproto.CanonicalMIMEHeaderKey\<close>: the first letter and every letter after
  a hyphen in upper case, the other letters in lower case; a key with a byte
  that no header name may have is left as it is.\<close>

definition isLower :: "char \<Rightarrow> bool" where
  "isLower c \<longleftrightarrow> (0x61::nat) \<le> of_char c \<and> of_char c \<le> (0x7A::nat)"

definition isUpper :: "char \<Rightarrow> bool" where
  "isUpper c \<longleftrightarrow> (0x41::nat) \<le> of_char c \<and> of_char c \<le> (0x5A::nat)"

definition validHeaderFieldByte :: "char \<Rightarrow> bool" where
  "validHeaderFieldByte c \<longleftrightarrow> isLower c \<or> isUpper c \<or> isDigit c \<or> c \<in> set ''!#$%&*+-.^_`|~'' \<or> c = CHR 0x27"

fun canonicalCase :: "bool \<Rightarrow> string \<Rightarrow> string" where
  "canonicalCase upper [] = []"
| "canonicalCase upper (c # cs) =
     (if upper \<and> isLower c then char_of (of_char c - (32::nat))
      else if \<not> upper \<and> isUpper c then char_of (of_char c + (32::nat))
      else c) # canonicalCase (c = CHR ''-'') cs"

definition CanonicalMIMEHeaderKey :: "string \<Rightarrow> string" where
  "CanonicalMIMEHeaderKey s = (if list_all validHeaderFieldByte s then canonicalCase True s else s)"

definition hopHeaders :: "string list" where
  "hopHeaders =
     [''Connection'', ''Proxy-Connection'', ''Keep-Alive'', ''Proxy-Authenticate'',
      ''Proxy-Authorization'', ''Te'', ''Trailer'', ''Transfer-Encoding'', ''Upgrade'']"

text \<open>The header names the \<^verbatim>\<open>Connection\<close> header lists, in canonical form.\<close>

definition connectionOptions :: "header \<Rightarrow> string list" where
  "connectionOptions h =
     map CanonicalMIMEHeaderKey
       (filter (\<lambda>sf. sf \<noteq> [])
          (map TrimString
             (concat (map splitComma (case map_of h ''Connection'' of Some vs \<Rightarrow> vs | None \<Rightarrow> [])))))"

definition removeHopByHopHeaders :: "header \<Rightarrow> header" where
  "removeHopByHopHeaders h =
     fold (\<lambda>f h'. Header_Del h' f) hopHeaders
       (fold (\<lambda>sf h'. Header_Del h' sf) (connectionOptions h) h)"

text \<open>The request that goes upstream: \<^verbatim>\<open>ServeHTTP\<close> clones the request of the
  gin context (so \<^verbatim>\<open>c.GetHeader\<close> reads the header of \<open>req\<close>), runs the
  \<^verbatim>\<open>Director\<close> on the clone, then removes the hop-by-hop headers.\<close>

definition ReverseProxy_outreq ::
  "(request \<Rightarrow> request) \<Rightarrow> string \<Rightarrow> config \<Rightarrow> request \<Rightarrow> request" where
  "ReverseProxy_outreq director host cfg req =
     (let outreq = Director director host cfg (req_header req) req
      in outreq\<lparr>req_header := removeHopByHopHeaders (req_header outreq)\<rparr>)"

definition isStreamRequest :: "request \<Rightarrow> bool" where
  "isStreamRequest req \<longleftrightarrow>
     Contains (req_path req) ''/stream'' \<or> Header_Get (req_header req) ''Accept'' = ''text/event-stream''"

text \<open>How \<^verbatim>\<open>handleProxy\<close> ends: with the 500 answer, with the 200 answer to
  \<^verbatim>\<open>OPTIONS\<close>, or in one of the two relays with the request to forward.\<close>

datatype dispatch =
    InternalServerError
  | OptionsOK
  | StreamRelay request
  | NonStreamRelay request

definition handleProxy ::
  "unmarshal \<Rightarrow> marshal \<Rightarrow> iteration \<Rightarrow> request \<Rightarrow> log_entry list \<times> dispatch" where
  "handleProxy unm mar ord req =
     (let lg0 = [LogReceived (req_method req) (req_path req), LogRequestHeader (req_header req)] in
      case req_body req of
        ReadError \<Rightarrow> (lg0 @ [LogReadBodyError], InternalServerError)
      | b \<Rightarrow>
          let (lg1, requestBody, req1) =
                (case b of
                   Body data \<Rightarrow>
                     let (lg, modifiedBody) = modifyRequestBody unm mar ord data
                     in (lg, data,
                         req\<lparr>req_body := Body modifiedBody,
                             req_ContentLength := int (length modifiedBody)\<rparr>)
                 | _ \<Rightarrow> ([], [], req));
              lg2 = lg0 @ lg1 @ [LogRequest (req_method req) (req_path req) requestBody]
          in if req_method req = ''OPTIONS'' then (lg2, OptionsOK)
             else if isStreamRequest req1 then (lg2, StreamRelay req1)
             else (lg2, NonStreamRelay req1))"

section \<open>Example inputs\<close>

definition optionsRequest :: request where
  "optionsRequest =
     \<lparr>req_method = ''OPTIONS'', req_path = ''/v1/stream'', req_host = ''localhost:8080'',
      req_header = [], req_body = Body [], req_ContentLength = 0\<rparr>"

definition modelsRequest :: request where
  "modelsRequest =
     \<lparr>req_method = ''GET'', req_path = ''/v1/models'', req_host = ''localhost:8080'',
      req_header = [(''Accept'', [''application/json'']),
                    (''Authorization'', [''Bearer sk-user''])],
      req_body = Body [], req_ContentLength = 0\<rparr>"

definition eventsRequest :: request where
  "eventsRequest =
     \<lparr>req_method = ''GET'', req_path = ''/v1/events'', req_host = ''localhost:8080'',
      req_header = [(''Accept'', [''text/event-stream''])],
      req_body = Body [], req_ContentLength = 0\<rparr>"

definition hopRequest :: request where
  "hopRequest =
     \<lparr>req_method = ''GET'', req_path = ''/v1/models'', req_host = ''localhost:8080'',
      req_header = [(''Authorization'', [''Bearer sk-user'']),
                    (''Connection'', [''keep-alive, authorization''])],
      req_body = Body [], req_ContentLength = 0\<rparr>"

definition splitSentinel :: response where
  "splitSentinel =
     \<lparr>resp_status = 200,
      resp_header = [(''Content-Type'', [''text/event-stream''])],
      resp_body = [''data: [DO'', ''NE]'' @ [CHR 0x0A, CHR 0x0A]]\<rparr>"

definition eventsSlice :: bytes where
  "eventsSlice =
     ''data: junk'' @ [CHR 0x0A, CHR 0x0A] @ ''  data: [DONE] '' @ [CHR 0x0D, CHR 0x0A, CHR 0x0A]"

definition brokenRequest :: request where
  "brokenRequest =
     \<lparr>req_method = ''POST'', req_path = ''/v1/stream'', req_host = ''localhost:8080'',
      req_header = [], req_body = ReadError, req_ContentLength = 10\<rparr>"

definition exampleConfig :: config where
  "exampleConfig =
     \<lparr>OpenAIAPIURL = ''https://api.openai.com'', OpenAIAPIKey = ''sk-default'',
      PromptModifications = [(''BADWORD'', ''nice'')]\<rparr>"

definition noModifications :: iteration where
  "noModifications i = []"

definition exampleOrder :: iteration where
  "exampleOrder i = PromptModifications exampleConfig"

definition chatBody :: bytes where
  \<open>chatBody = ''{"model":"gpt-4","messages":[{"role":"user","content":"hello"}]}''\<close>

definition promptBody :: bytes where
  \<open>promptBody = ''{"prompt": "hello"}''\<close>

definition nullBody :: bytes where
  "nullBody = '' null''"

definition flagBody :: bytes where
  \<open>flagBody = ''{"messages": [true]}''\<close>

definition flagRequest :: request where
  "flagRequest =
     \<lparr>req_method = ''POST'', req_path = ''/v1/chat/completions'', req_host = ''localhost:8080'',
      req_header = [(''Content-Type'', [''application/json''])],
      req_body = Body flagBody, req_ContentLength = 20\<rparr>"

definition mixedBody :: bytes where
  \<open>mixedBody = ''{"messages": [true, {"content": "hello BADWORD"}]}''\<close>

definition chainTable :: "(string \<times> string) list" where
  "chainTable = [(''cat'', ''dog''), (''dog'', ''bird'')]"

definition catFirst :: iteration where
  "catFirst i = [(''cat'', ''dog''), (''dog'', ''bird'')]"

definition dogFirst :: iteration where
  "dogFirst i = [(''dog'', ''bird''), (''cat'', ''dog'')]"

definition catBody :: bytes where
  \<open>catBody = ''{"messages":[{"content":"cat","role":"user"}]}''\<close>

definition exampleMessages :: "json list" where
  "exampleMessages =
     [JObject [(''role'', JString ''user''), (''content'', JString ''hello BADWORD'')],
      JObject [(''role'', JString ''user''), (''content'', JArray [JString ''part''])]]"

definition exampleRequest :: json where
  "exampleRequest = JObject [(''model'', JString ''gpt-4''), (''messages'', JArray exampleMessages)]"

definition promptRequest :: json where
  "promptRequest = JObject [(''prompt'', JString ''hello'')]"

definition chatRequest :: json where
  "chatRequest =
     JObject [(''model'', JString ''gpt-4''),
              (''messages'', JArray [JObject [(''role'', JString ''user''),
                                              (''content'', JString ''hello'')]])]"

definition sortedBody :: bytes where
  \<open>sortedBody = ''{"messages":[{"content":"hello","role":"user"}],"model":"gpt-4"}''\<close>

definition exampleResponse :: response where
  \<open>exampleResponse =
     \<lparr>resp_status = 200,
      resp_header = [(''Content-Type'', [''application/json''])],
      resp_body = [''{"choices":[]}'']\<rparr>\<close>

section \<open>Facts about the library functions\<close>

lemma concat_chunksOf: "0 < n \<Longrightarrow> concat (chunksOf n b) = b"
proof (induction n b rule: chunksOf.induct)
  case (1 n b)
  show ?case
  proof (cases "b = []")
    case True
    then show ?thesis by (simp add: chunksOf.simps)
  next
    case False
    with 1 have "concat (chunksOf n (drop n b)) = drop n b" by simp
    with False 1(2) show ?thesis by (subst chunksOf.simps) simp
  qed
qed

lemma chunksOf_short:
  assumes "b \<noteq> []" and "length b \<le> n"
  shows "chunksOf n b = [b]"
proof -
  from assms have "0 < n" by (cases b) auto
  with assms show ?thesis
    by (subst chunksOf.simps, subst chunksOf.simps) simp
qed

section \<open>The streaming relay\<close>

lemma writes_gin_Write: "rw_writes (gin_Write p w) = rw_writes w @ [p]"
  by (simp add: gin_Write_def gin_WriteHeaderNow_def Let_def)

lemma writes_stream_Write:
  "rw_writes (sw_ResponseWriter (streamResponseWriter_Write unm p w)) =
   rw_writes (sw_ResponseWriter w) @ [p]"
  by (simp add: streamResponseWriter_Write_def Let_def writes_gin_Write)

lemma writes_fold_stream_Write:
  "rw_writes (sw_ResponseWriter (fold (streamResponseWriter_Write unm) ps w)) =
   rw_writes (sw_ResponseWriter w) @ ps"
  by (induction ps arbitrary: w) (simp_all add: writes_stream_Write)

lemma writes_gin_WriteHeader [simp]: "rw_writes (gin_WriteHeader code w) = rw_writes w"
  by (simp add: gin_WriteHeader_def)

lemma writes_gin_Header [simp]: "rw_writes (gin_Header k v w) = rw_writes w"
  by (simp add: gin_Header_def)

lemma concat_body_logResponse: "concat (resp_body (snd (logResponse resp))) = concat (resp_body resp)"
  by (simp add: logResponse_def Let_def concat_chunksOf)

lemma writes_handleStreamRequest:
  "rw_writes (snd (handleStreamRequest unm resp st)) =
   rw_writes (snd st) @ resp_body (snd (logResponse resp))"
  by (simp add: handleStreamRequest_def Let_def copyResponse_def split_beta
      writes_fold_stream_Write)

text \<open>
  Claim C1. Whatever the decoder answers on the lines of a slice, the writer of
  the streaming relay passes each slice \<open>p\<close> it is given to the client's writer
  in one \<^verbatim>\<open>Write\<close> call, as it is: after the call the client's writer has
  received the calls it had received before and then \<open>p\<close>; a sequence \<open>ps\<close> of
  slices arrives as that sequence, in order; and in a whole streaming relay
  the bytes the client receives are the bytes of the upstream's body.
\<close>

theorem stream_write_forwards_bytes:
  "rw_writes (sw_ResponseWriter (streamResponseWriter_Write unm p w)) =
     rw_writes (sw_ResponseWriter w) @ [p]
   \<and> rw_writes (sw_ResponseWriter (fold (streamResponseWriter_Write unm) ps w)) =
     rw_writes (sw_ResponseWriter w) @ ps
   \<and> received (snd (handleStreamRequest unm resp st)) =
     received (snd st) @ concat (resp_body resp)"
  by (simp add: writes_stream_Write writes_fold_stream_Write received_def
      writes_handleStreamRequest concat_body_logResponse)

theorem stream_write_forwards_bytes_witness:
  "rw_writes (sw_ResponseWriter
      (streamResponseWriter_Write refUnmarshal
         (''data: [DONE]'' @ [CHR 0x0A, CHR 0x0A] @ ''no json'' @ [CHR 0x0A])
         \<lparr>sw_ResponseWriter = newResponseWriter, sw_logger = []\<rparr>)) =
   [''data: [DONE]'' @ [CHR 0x0A, CHR 0x0A] @ ''no json'' @ [CHR 0x0A]]"
  using stream_write_forwards_bytes
    [of refUnmarshal "''data: [DONE]'' @ [CHR 0x0A, CHR 0x0A] @ ''no json'' @ [CHR 0x0A]"
        "\<lparr>sw_ResponseWriter = newResponseWriter, sw_logger = []\<rparr>"]
  by (simp add: newResponseWriter_def)

lemma TrimPrefix_sentinel_nonempty:
  "TrimPrefix line ''data: '' = ''[DONE]'' \<Longrightarrow> line \<noteq> []"
  by (auto simp: TrimPrefix_def)

lemma logLine_sentinel:
  "TrimPrefix (TrimSpace line) ''data: '' = ''[DONE]'' \<Longrightarrow> logLine unm line = [LogStreamEnd]"
  using TrimPrefix_sentinel_nonempty [of "TrimSpace line"]
  by (simp add: logLine_def Let_def)

lemma logLine_no_sentinel:
  "TrimPrefix (TrimSpace line) ''data: '' \<noteq> ''[DONE]'' \<Longrightarrow> LogStreamEnd \<notin> set (logLine unm line)"
  by (simp add: logLine_def Let_def split: sum.splits)

lemma TrimPrefix_sentinel_iff:
  "TrimPrefix s ''data: '' = ''[DONE]'' \<longleftrightarrow> s = ''[DONE]'' \<or> s = ''data: [DONE]''"
proof (cases "prefix ''data: '' s")
  case True
  then obtain r where "s = ''data: '' @ r" by (auto simp: prefix_def)
  then show ?thesis by (auto simp: TrimPrefix_def)
next
  case False
  then show ?thesis by (auto simp: TrimPrefix_def)
qed

lemma logLine_blank: "TrimSpace line = [] \<Longrightarrow> logLine unm line = []"
  by (simp add: logLine_def)

lemma logLine_payload:
  "TrimSpace line \<noteq> [] \<Longrightarrow> TrimPrefix (TrimSpace line) ''data: '' \<noteq> ''[DONE]'' \<Longrightarrow>
   logLine unm line =
     (case unm (TrimPrefix (TrimSpace line) ''data: '') of
        Inl err \<Rightarrow> [LogStreamParseError err]
      | Inr chunk \<Rightarrow> [LogStreamChunk (TrimPrefix (TrimSpace line) ''data: '')])"
  by (simp add: logLine_def Let_def)

lemma logLines_append: "logLines unm ls lg = lg @ concat (map (logLine unm) ls)"
  by (induction ls arbitrary: lg) simp_all

lemma logger_Write:
  "sw_logger (streamResponseWriter_Write unm p w) =
   sw_logger w @ concat (map (logLine unm) (Split p))"
  by (simp add: streamResponseWriter_Write_def Let_def logLines_append)

lemma logLine_update_sentinel: "logLine (unm(''[DONE]'' := x)) = logLine unm"
  by (rule ext) (simp add: logLine_def Let_def)

lemma Write_update_sentinel:
  "streamResponseWriter_Write (unm(''[DONE]'' := x)) p w = streamResponseWriter_Write unm p w"
  by (simp add: streamResponseWriter_Write_def Let_def logLines_append logLine_update_sentinel)

lemma count_logLine:
  "length (filter (\<lambda>e. e = LogStreamEnd) (logLine unm line)) =
   (if TrimSpace line = ''[DONE]'' \<or> TrimSpace line = ''data: [DONE]'' then 1 else 0)"
  using logLine_sentinel [of line unm] logLine_no_sentinel [of line unm]
    TrimPrefix_sentinel_iff [of "TrimSpace line"]
  by (auto simp: filter_empty_conv)

lemma count_concat_logLine:
  "length (filter (\<lambda>e. e = LogStreamEnd) (concat (map (logLine unm) ls))) =
   length (filter (\<lambda>line. TrimSpace line = ''[DONE]'' \<or> TrimSpace line = ''data: [DONE]'') ls)"
  by (induction ls) (simp_all add: count_logLine)

text \<open>
  Claim C8 as stated fails for a line of the stream that reaches the writer in
  two slices: the loop splits each slice of a \<^verbatim>\<open>Write\<close> call on its own and keeps
  nothing from one call to the next. The upstream below sends the line
  \<^verbatim>\<open>data: [DONE]\<close>, whose trimmed payload is the sentinel, as the slices
  \<^verbatim>\<open>data: [DO\<close> and \<^verbatim>\<open>NE]\<close>; the relay logs two parse errors and no end of the
  stream.
\<close>

theorem split_sentinel_line_not_recognised:
  "concat (resp_body splitSentinel) = ''data: [DONE]'' @ [CHR 0x0A, CHR 0x0A]
   \<and> TrimPrefix (TrimSpace ''data: [DONE]'') ''data: '' = ''[DONE]''
   \<and> fst (handleStreamRequest refUnmarshal splitSentinel ([], newResponseWriter)) =
       [LogStreamStart 200, LogStreamParseError SyntaxError, LogStreamParseError SyntaxError]"
  by code_simp

text \<open>
  Claim C8, amended. For a line of a slice passed to one \<^verbatim>\<open>Write\<close> call (the
  slice split at its line feeds) whose payload (the line with surrounding
  white space trimmed and one prefix \<^verbatim>\<open>data: \<close> taken off) is the sentinel
  \<^verbatim>\<open>[DONE]\<close>, the call logs, after the entries of the lines before it, the end
  of the stream and nothing else for that line, and then the entries of the
  lines after it. The decoder is not consulted on the payload: the call's
  result is the same whatever the decoder would answer on \<^verbatim>\<open>[DONE]\<close>, so no
  parse error is logged for the line.
\<close>

theorem sentinel_line_of_slice_logs_stream_end:
  assumes "Split p = before @ line # after"
    and "TrimPrefix (TrimSpace line) ''data: '' = ''[DONE]''"
  shows "sw_logger (streamResponseWriter_Write unm p w) =
           sw_logger w @ concat (map (logLine unm) before) @ LogStreamEnd #
             concat (map (logLine unm) after)
    \<and> streamResponseWriter_Write (unm(''[DONE]'' := x)) p w = streamResponseWriter_Write unm p w"
  using assms by (simp add: logger_Write logLine_sentinel Write_update_sentinel)

theorem sentinel_line_of_slice_logs_stream_end_witness:
  "sw_logger (streamResponseWriter_Write refUnmarshal eventsSlice
      \<lparr>sw_ResponseWriter = newResponseWriter, sw_logger = []\<rparr>) =
     [LogStreamParseError SyntaxError, LogStreamEnd]
   \<and> streamResponseWriter_Write (refUnmarshal(''[DONE]'' := Inr JNull)) eventsSlice
       \<lparr>sw_ResponseWriter = newResponseWriter, sw_logger = []\<rparr> =
     streamResponseWriter_Write refUnmarshal eventsSlice
       \<lparr>sw_ResponseWriter = newResponseWriter, sw_logger = []\<rparr>"
proof -
  have s: "Split eventsSlice =
      [''data: junk'', []] @ (''  data: [DONE] '' @ [CHR 0x0D]) # [[], []]"
    by code_simp
  have t: "TrimPrefix (TrimSpace (''  data: [DONE] '' @ [CHR 0x0D])) ''data: '' = ''[DONE]''"
    by code_simp
  have b: "concat (map (logLine refUnmarshal) [''data: junk'', []]) =
      [LogStreamParseError SyntaxError]"
    by code_simp
  have a: "concat (map (logLine refUnmarshal) [[], []]) = []"
    by code_simp
  from sentinel_line_of_slice_logs_stream_end [OF s t, of refUnmarshal
      "\<lparr>sw_ResponseWriter = newResponseWriter, sw_logger = []\<rparr>" "Inr JNull"] a b
  show ?thesis by simp
qed

text \<open>
  Claim C10. A \<^verbatim>\<open>Write\<close> call logs the end of the stream once for each line of
  its slice that, with the surrounding white space trimmed, is \<^verbatim>\<open>[DONE]\<close> or
  \<^verbatim>\<open>data: [DONE]\<close>, and for no other line: these are the lines of which
  \<^verbatim>\<open>[DONE]\<close> remains after trimming and taking off one prefix \<^verbatim>\<open>data: \<close> (with
  its space). So a bare \<^verbatim>\<open>[DONE]\<close> is the sentinel, also between tabs, spaces,
  a carriage return or Unicode white space; \<^verbatim>\<open>data:[DONE]\<close> without the space is
  not: it is handed to the decoder as it is, which rejects it, and a parse
  error is logged. Only one prefix is taken off: of \<^verbatim>\<open>data: data: [DONE]\<close> the
  decoder gets \<^verbatim>\<open>data: [DONE]\<close>.
\<close>

theorem sentinel_recognition_exact:
  "length (filter (\<lambda>e. e = LogStreamEnd)
      (drop (length (sw_logger w)) (sw_logger (streamResponseWriter_Write unm p w)))) =
     length (filter (\<lambda>line. TrimSpace line = ''[DONE]'' \<or> TrimSpace line = ''data: [DONE]'')
       (Split p))
   \<and> sw_logger (streamResponseWriter_Write unm (''[DONE]'' @ [CHR 0x0A]) w) =
       sw_logger w @ [LogStreamEnd]
   \<and> sw_logger (streamResponseWriter_Write unm
         ([CHR 0x09] @ ''data: [DONE]  '' @ [CHR 0x0D, CHR 0x0A]) w) =
       sw_logger w @ [LogStreamEnd]
   \<and> sw_logger (streamResponseWriter_Write unm
         ([CHR 0xC2, CHR 0xA0] @ ''[DONE]'' @ [CHR 0xE2, CHR 0x80, CHR 0x83, CHR 0x0A]) w) =
       sw_logger w @ [LogStreamEnd]
   \<and> sw_logger (streamResponseWriter_Write unm (''data:[DONE]'' @ [CHR 0x0A]) w) =
       sw_logger w @
         (case unm ''data:[DONE]'' of
            Inl err \<Rightarrow> [LogStreamParseError err]
          | Inr chunk \<Rightarrow> [LogStreamChunk ''data:[DONE]''])
   \<and> sw_logger (streamResponseWriter_Write unm (''data: data: [DONE]'' @ [CHR 0x0A]) w) =
       sw_logger w @
         (case unm ''data: [DONE]'' of
            Inl err \<Rightarrow> [LogStreamParseError err]
          | Inr chunk \<Rightarrow> [LogStreamChunk ''data: [DONE]''])
   \<and> refUnmarshal ''data:[DONE]'' = Inl SyntaxError
   \<and> refUnmarshal ''data: [DONE]'' = Inl SyntaxError"
proof -
  have n: "length (filter (\<lambda>e. e = LogStreamEnd)
      (drop (length (sw_logger w)) (sw_logger (streamResponseWriter_Write unm p w)))) =
     length (filter (\<lambda>line. TrimSpace line = ''[DONE]'' \<or> TrimSpace line = ''data: [DONE]'')
       (Split p))"
    by (simp add: logger_Write count_concat_logLine)
  have s1: "Split (''[DONE]'' @ [CHR 0x0A]) = [''[DONE]'', []]" by code_simp
  have t1: "TrimPrefix (TrimSpace ''[DONE]'') ''data: '' = ''[DONE]''" by code_simp
  have e: "TrimSpace [] = []" by code_simp
  have a: "sw_logger (streamResponseWriter_Write unm (''[DONE]'' @ [CHR 0x0A]) w) =
       sw_logger w @ [LogStreamEnd]"
    by (simp only: logger_Write s1) (simp add: logLine_sentinel [OF t1] logLine_blank [OF e])
  have s2: "Split ([CHR 0x09] @ ''data: [DONE]  '' @ [CHR 0x0D, CHR 0x0A]) =
      [[CHR 0x09] @ ''data: [DONE]  '' @ [CHR 0x0D], []]" by code_simp
  have t2: "TrimPrefix (TrimSpace ([CHR 0x09] @ ''data: [DONE]  '' @ [CHR 0x0D])) ''data: '' =
      ''[DONE]''" by code_simp
  have b: "sw_logger (streamResponseWriter_Write unm
         ([CHR 0x09] @ ''data: [DONE]  '' @ [CHR 0x0D, CHR 0x0A]) w) =
       sw_logger w @ [LogStreamEnd]"
    unfolding logger_Write s2 list.map concat.simps logLine_sentinel [OF t2]
      logLine_blank [OF e]
    by simp
  have s3: "Split ([CHR 0xC2, CHR 0xA0] @ ''[DONE]'' @ [CHR 0xE2, CHR 0x80, CHR 0x83, CHR 0x0A]) =
      [[CHR 0xC2, CHR 0xA0] @ ''[DONE]'' @ [CHR 0xE2, CHR 0x80, CHR 0x83], []]" by code_simp
  have t3: "TrimPrefix (TrimSpace ([CHR 0xC2, CHR 0xA0] @ ''[DONE]'' @
      [CHR 0xE2, CHR 0x80, CHR 0x83])) ''data: '' = ''[DONE]''" by code_simp
  have c: "sw_logger (streamResponseWriter_Write unm
         ([CHR 0xC2, CHR 0xA0] @ ''[DONE]'' @ [CHR 0xE2, CHR 0x80, CHR 0x83, CHR 0x0A]) w) =
       sw_logger w @ [LogStreamEnd]"
    unfolding logger_Write s3 list.map concat.simps logLine_sentinel [OF t3]
      logLine_blank [OF e]
    by simp
  have s4: "Split (''data:[DONE]'' @ [CHR 0x0A]) = [''data:[DONE]'', []]" by code_simp
  have t4: "TrimSpace ''data:[DONE]'' = ''data:[DONE]''" by code_simp
  have p4: "TrimPrefix ''data:[DONE]'' ''data: '' = ''data:[DONE]''" by code_simp
  have d: "sw_logger (streamResponseWriter_Write unm (''data:[DONE]'' @ [CHR 0x0A]) w) =
       sw_logger w @
         (case unm ''data:[DONE]'' of
            Inl err \<Rightarrow> [LogStreamParseError err]
          | Inr chunk \<Rightarrow> [LogStreamChunk ''data:[DONE]''])"
    by (simp only: logger_Write s4) (simp add: logLine_def Let_def t4 p4 e)
  have s5: "Split (''data: data: [DONE]'' @ [CHR 0x0A]) = [''data: data: [DONE]'', []]"
    by code_simp
  have t5: "TrimSpace ''data: data: [DONE]'' = ''data: data: [DONE]''" by code_simp
  have p5: "TrimPrefix ''data: data: [DONE]'' ''data: '' = ''data: [DONE]''" by code_simp
  have f: "sw_logger (streamResponseWriter_Write unm (''data: data: [DONE]'' @ [CHR 0x0A]) w) =
       sw_logger w @
         (case unm ''data: [DONE]'' of
            Inl err \<Rightarrow> [LogStreamParseError err]
          | Inr chunk \<Rightarrow> [LogStreamChunk ''data: [DONE]''])"
    by (simp only: logger_Write s5) (simp add: logLine_def Let_def t5 p5 e)
  have g: "refUnmarshal ''data:[DONE]'' = Inl SyntaxError" by code_simp
  have h: "refUnmarshal ''data: [DONE]'' = Inl SyntaxError" by code_simp
  from n a b c d f g h show ?thesis by blast
qed

theorem sentinel_recognition_exact_witness:
  "sw_logger (streamResponseWriter_Write refUnmarshal (''data:[DONE]'' @ [CHR 0x0A])
      \<lparr>sw_ResponseWriter = newResponseWriter, sw_logger = []\<rparr>) =
     [LogStreamParseError SyntaxError]
   \<and> sw_logger (streamResponseWriter_Write refUnmarshal (''[DONE]'' @ [CHR 0x0A])
      \<lparr>sw_ResponseWriter = newResponseWriter, sw_logger = []\<rparr>) = [LogStreamEnd]
   \<and> length (filter (\<lambda>e. e = LogStreamEnd)
       (sw_logger (streamResponseWriter_Write refUnmarshal eventsSlice
          \<lparr>sw_ResponseWriter = newResponseWriter, sw_logger = []\<rparr>))) = 1"
proof -
  have c: "length (filter (\<lambda>line. TrimSpace line = ''[DONE]'' \<or> TrimSpace line = ''data: [DONE]'')
       (Split eventsSlice)) = 1"
    by code_simp
  from sentinel_recognition_exact
      [of "\<lparr>sw_ResponseWriter = newResponseWriter, sw_logger = []\<rparr>" refUnmarshal eventsSlice] c
  show ?thesis by simp
qed

section \<open>The outbound request\<close>

lemma Header_Get_Set: "Header_Get (Header_Set h k v) k = v"
  by (simp add: Header_Get_def Header_Set_def update_conv')

lemma Header_values_Set: "map_of (Header_Set h k v) k = Some [v]"
  by (simp add: Header_Set_def update_conv')

text \<open>After the \<^verbatim>\<open>Director\<close> closure has run, the \<^verbatim>\<open>Authorization\<close> header of the
  request has one value, whatever the proxy's own director did before.\<close>

lemma Director_header:
  "req_header (Director director host cfg inbound req) =
     Header_Set (req_header (director req)) ''Authorization''
       (if Header_Get inbound ''Authorization'' \<noteq> [] then Header_Get inbound ''Authorization''
        else ''Bearer '' @ OpenAIAPIKey cfg)"
  by (simp add: Director_def Let_def)

lemma map_of_fold_Del:
  "map_of (fold (\<lambda>f h'. Header_Del h' f) ks h) k = (if k \<in> set ks then None else map_of h k)"
  by (induction ks arbitrary: h) (auto simp: Header_Del_def delete_conv')

lemma map_of_removeHopByHopHeaders:
  "map_of (removeHopByHopHeaders h) k =
     (if k \<in> set (connectionOptions h) \<or> k \<in> set hopHeaders then None else map_of h k)"
  by (simp add: removeHopByHopHeaders_def map_of_fold_Del)

lemma connectionOptions_Set:
  "k \<noteq> ''Connection'' \<Longrightarrow> connectionOptions (Header_Set h k v) = connectionOptions h"
  by (simp add: connectionOptions_def Header_Set_def update_conv')

text \<open>
  Claim C6 as stated fails: the proxy removes the hop-by-hop headers after the
  \<^verbatim>\<open>Director\<close> has set \<^verbatim>\<open>Authorization\<close>, and a request can name any header
  hop-by-hop in its \<^verbatim>\<open>Connection\<close> header. The request below carries
  \<^verbatim>\<open>Authorization: Bearer sk-user\<close> and \<^verbatim>\<open>Connection: keep-alive, authorization\<close>;
  the request that goes upstream has no \<^verbatim>\<open>Authorization\<close> header.
\<close>

theorem connection_header_removes_authorization:
  "Header_Get (req_header hopRequest) ''Authorization'' = ''Bearer sk-user''
   \<and> map_of (req_header (ReverseProxy_outreq id ''api.openai.com'' exampleConfig hopRequest))
       ''Authorization'' = None
   \<and> Header_Get (req_header (ReverseProxy_outreq id ''api.openai.com'' exampleConfig hopRequest))
       ''Authorization'' = []"
  by code_simp

text \<open>
  Claim C6, amended. When the \<^verbatim>\<open>Connection\<close> header of the request (as the
  proxy's own director leaves it) does not name \<^verbatim>\<open>Authorization\<close>, the
  \<^verbatim>\<open>Authorization\<close> header of the request that goes upstream has one value: the
  inbound request's value when that is not empty, and \<^verbatim>\<open>Bearer \<close> followed by
  the configured key when the inbound header is absent or empty. When the
  \<^verbatim>\<open>Connection\<close> header names \<^verbatim>\<open>Authorization\<close>, the request that goes upstream
  has no \<^verbatim>\<open>Authorization\<close> header.
\<close>

theorem upstream_authorization:
  "(''Authorization'' \<in> set (connectionOptions (req_header (director req))) \<longrightarrow>
      map_of (req_header (ReverseProxy_outreq director host cfg req)) ''Authorization'' = None
      \<and> Header_Get (req_header (ReverseProxy_outreq director host cfg req)) ''Authorization'' = [])
   \<and> (''Authorization'' \<notin> set (connectionOptions (req_header (director req))) \<longrightarrow>
      map_of (req_header (ReverseProxy_outreq director host cfg req)) ''Authorization'' =
        Some [if Header_Get (req_header req) ''Authorization'' \<noteq> []
              then Header_Get (req_header req) ''Authorization''
              else ''Bearer '' @ OpenAIAPIKey cfg]
      \<and> Header_Get (req_header (ReverseProxy_outreq director host cfg req)) ''Authorization'' =
        (if Header_Get (req_header req) ''Authorization'' \<noteq> []
         then Header_Get (req_header req) ''Authorization''
         else ''Bearer '' @ OpenAIAPIKey cfg))"
  by (simp add: ReverseProxy_outreq_def Let_def Director_header map_of_removeHopByHopHeaders
      connectionOptions_Set Header_Get_def hopHeaders_def)
     (simp add: Header_Set_def update_conv')

theorem upstream_authorization_witness:
  "Header_Get (req_header (ReverseProxy_outreq id ''api.openai.com'' exampleConfig modelsRequest))
     ''Authorization'' = ''Bearer sk-user''
   \<and> Header_Get (req_header (ReverseProxy_outreq id ''api.openai.com'' exampleConfig eventsRequest))
     ''Authorization'' = ''Bearer sk-default''
   \<and> map_of (req_header (ReverseProxy_outreq id ''api.openai.com'' exampleConfig hopRequest))
     ''Authorization'' = None"
proof -
  have 1: "Header_Get (req_header modelsRequest) ''Authorization'' = ''Bearer sk-user''"
    by code_simp
  have 2: "Header_Get (req_header eventsRequest) ''Authorization'' = []"
    by code_simp
  have 3: "OpenAIAPIKey exampleConfig = ''sk-default''"
    by (simp add: exampleConfig_def)
  have 4: "''Authorization'' \<notin> set (connectionOptions (req_header (id modelsRequest)))"
    by code_simp
  have 5: "''Authorization'' \<notin> set (connectionOptions (req_header (id eventsRequest)))"
    by code_simp
  have 6: "''Authorization'' \<in> set (connectionOptions (req_header (id hopRequest)))"
    by code_simp
  from upstream_authorization [of id modelsRequest "''api.openai.com''" exampleConfig] 1 4
  have a: "Header_Get (req_header (ReverseProxy_outreq id ''api.openai.com'' exampleConfig
      modelsRequest)) ''Authorization'' = ''Bearer sk-user''"
    by simp
  from upstream_authorization [of id eventsRequest "''api.openai.com''" exampleConfig] 2 3 5
  have b: "Header_Get (req_header (ReverseProxy_outreq id ''api.openai.com'' exampleConfig
      eventsRequest)) ''Authorization'' = ''Bearer sk-default''"
    by simp
  from upstream_authorization [of id hopRequest "''api.openai.com''" exampleConfig] 6
  have c: "map_of (req_header (ReverseProxy_outreq id ''api.openai.com'' exampleConfig hopRequest))
     ''Authorization'' = None"
    by simp
  from a b c show ?thesis by simp
qed

section \<open>The choice of the relay\<close>

text \<open>The request \<^verbatim>\<open>handleProxy\<close> forwards: the inbound request with the body
  \<^verbatim>\<open>modifyRequestBody\<close> returned and its length.\<close>

lemma handleProxy_relay:
  assumes "req_body req \<noteq> ReadError" and "req_method req \<noteq> ''OPTIONS''"
  shows "snd (handleProxy unm mar ord req) =
     (let req1 = (case req_body req of
                    Body data \<Rightarrow>
                      req\<lparr>req_body := Body (snd (modifyRequestBody unm mar ord data)),
                          req_ContentLength :=
                            int (length (snd (modifyRequestBody unm mar ord data)))\<rparr>
                  | _ \<Rightarrow> req)
      in if Contains (req_path req) ''/stream''
            \<or> Header_Get (req_header req) ''Accept'' = ''text/event-stream''
         then StreamRelay req1 else NonStreamRelay req1)"
  using assms
  by (cases "req_body req")
     (simp_all add: handleProxy_def Let_def isStreamRequest_def split_beta)

lemma handleProxy_options:
  assumes "req_body req \<noteq> ReadError" and "req_method req = ''OPTIONS''"
  shows "snd (handleProxy unm mar ord req) = OptionsOK"
  using assms
  by (cases "req_body req") (simp_all add: handleProxy_def Let_def split_beta)

lemma handleProxy_read_error:
  assumes "req_body req = ReadError"
  shows "snd (handleProxy unm mar ord req) = InternalServerError"
  using assms by (simp add: handleProxy_def Let_def)

text \<open>
  Claim C9 as stated fails: an \<^verbatim>\<open>OPTIONS\<close> request whose path contains the
  stream marker satisfies the condition for a streaming request, and
  \<^verbatim>\<open>handleProxy\<close> answers it itself, before the classification, and selects no
  relay.
\<close>

theorem options_request_selects_no_relay:
  "isStreamRequest optionsRequest
   \<and> snd (handleProxy refUnmarshal refMarshal noModifications optionsRequest) = OptionsOK"
  by code_simp

text \<open>
  Claim C9, amended. For a request whose body was read and whose method is not
  \<^verbatim>\<open>OPTIONS\<close>, \<^verbatim>\<open>handleProxy\<close> ends in the streaming relay when the path contains
  \<^verbatim>\<open>/stream\<close> as a substring or the \<^verbatim>\<open>Accept\<close> header is \<^verbatim>\<open>text/event-stream\<close>, and
  in the buffered relay otherwise; each time with the request carrying the
  body \<^verbatim>\<open>modifyRequestBody\<close> returned. An \<^verbatim>\<open>OPTIONS\<close> request ends with the 200
  answer and no relay, a request whose body cannot be read with the 500 answer
  and no relay.
\<close>

theorem relay_selected_by_classification:
  "(req_body req \<noteq> ReadError \<and> req_method req \<noteq> ''OPTIONS'' \<longrightarrow>
      snd (handleProxy unm mar ord req) =
        (let req1 = (case req_body req of
                       Body data \<Rightarrow>
                         req\<lparr>req_body := Body (snd (modifyRequestBody unm mar ord data)),
                             req_ContentLength :=
                               int (length (snd (modifyRequestBody unm mar ord data)))\<rparr>
                     | _ \<Rightarrow> req)
         in if Contains (req_path req) ''/stream''
               \<or> Header_Get (req_header req) ''Accept'' = ''text/event-stream''
            then StreamRelay req1 else NonStreamRelay req1))
   \<and> (req_body req \<noteq> ReadError \<and> req_method req = ''OPTIONS'' \<longrightarrow>
      snd (handleProxy unm mar ord req) = OptionsOK)
   \<and> (req_body req = ReadError \<longrightarrow>
      snd (handleProxy unm mar ord req) = InternalServerError)"
  using handleProxy_relay [of req unm mar ord] handleProxy_options [of req unm mar ord]
    handleProxy_read_error [of req unm mar ord]
  by blast

theorem relay_selected_by_classification_witness:
  "snd (handleProxy refUnmarshal refMarshal noModifications eventsRequest) = StreamRelay eventsRequest
   \<and> snd (handleProxy refUnmarshal refMarshal noModifications modelsRequest) = NonStreamRelay modelsRequest
   \<and> snd (handleProxy refUnmarshal refMarshal noModifications optionsRequest) = OptionsOK
   \<and> snd (handleProxy refUnmarshal refMarshal noModifications brokenRequest) = InternalServerError"
proof -
  have e: "req_body eventsRequest \<noteq> ReadError \<and> req_method eventsRequest \<noteq> ''OPTIONS''"
    by code_simp
  have m: "req_body modelsRequest \<noteq> ReadError \<and> req_method modelsRequest \<noteq> ''OPTIONS''"
    by code_simp
  have o: "req_body optionsRequest \<noteq> ReadError \<and> req_method optionsRequest = ''OPTIONS''"
    by code_simp
  have b: "req_body brokenRequest = ReadError"
    by code_simp
  have e1: "(let req1 = (case req_body eventsRequest of
                       Body data \<Rightarrow>
                         eventsRequest\<lparr>req_body :=
                             Body (snd (modifyRequestBody refUnmarshal refMarshal noModifications data)),
                           req_ContentLength :=
                             int (length (snd (modifyRequestBody refUnmarshal refMarshal
                                                 noModifications data)))\<rparr>
                     | _ \<Rightarrow> eventsRequest)
         in if Contains (req_path eventsRequest) ''/stream''
               \<or> Header_Get (req_header eventsRequest) ''Accept'' = ''text/event-stream''
            then StreamRelay req1 else NonStreamRelay req1) = StreamRelay eventsRequest"
    by code_simp
  have m1: "(let req1 = (case req_body modelsRequest of
                       Body data \<Rightarrow>
                         modelsRequest\<lparr>req_body :=
                             Body (snd (modifyRequestBody refUnmarshal refMarshal noModifications data)),
                           req_ContentLength :=
                             int (length (snd (modifyRequestBody refUnmarshal refMarshal
                                                 noModifications data)))\<rparr>
                     | _ \<Rightarrow> modelsRequest)
         in if Contains (req_path modelsRequest) ''/stream''
               \<or> Header_Get (req_header modelsRequest) ''Accept'' = ''text/event-stream''
            then StreamRelay req1 else NonStreamRelay req1) = NonStreamRelay modelsRequest"
    by code_simp
  from relay_selected_by_classification [of eventsRequest refUnmarshal refMarshal noModifications] e e1
  have 1: "snd (handleProxy refUnmarshal refMarshal noModifications eventsRequest) =
           StreamRelay eventsRequest"
    by simp
  from relay_selected_by_classification [of modelsRequest refUnmarshal refMarshal noModifications] m m1
  have 2: "snd (handleProxy refUnmarshal refMarshal noModifications modelsRequest) =
           NonStreamRelay modelsRequest"
    by simp
  from relay_selected_by_classification [of optionsRequest refUnmarshal refMarshal noModifications] o
  have 3: "snd (handleProxy refUnmarshal refMarshal noModifications optionsRequest) = OptionsOK"
    by blast
  from relay_selected_by_classification [of brokenRequest refUnmarshal refMarshal noModifications] b
  have 4: "snd (handleProxy refUnmarshal refMarshal noModifications brokenRequest) = InternalServerError"
    by blast
  from 1 2 3 4 show ?thesis by simp
qed

section \<open>The prompt rewriter\<close>

lemma replaceNonEmpty_absent: "\<not> Contains s old \<Longrightarrow> replaceNonEmpty s old new = s"
  by (induction s) auto

lemma Contains_empty: "Contains s []"
  by (cases s) auto

lemma ReplaceAll_absent: "\<not> Contains s old \<Longrightarrow> ReplaceAll s old new = s"
  using Contains_empty [of s] by (auto simp: ReplaceAll_def replaceNonEmpty_absent)

lemma applyModifications_foldl:
  "applyModifications kvs c = foldl (\<lambda>s (k, r). ReplaceAll s k r) c kvs"
  by (induction kvs c rule: applyModifications.induct) auto

lemma applyModifications_absent:
  "\<forall>(k, r) \<in> set kvs. \<not> Contains c k \<Longrightarrow> applyModifications kvs c = c"
  by (induction kvs c rule: applyModifications.induct) (auto simp: ReplaceAll_absent)

lemma ReplaceAll_scan:
  "old \<noteq> [] \<Longrightarrow> ReplaceAll (old @ rest) old new = new @ ReplaceAll rest old new"
  "old \<noteq> [] \<Longrightarrow> \<not> prefix old (c # cs) \<Longrightarrow> ReplaceAll (c # cs) old new = c # ReplaceAll cs old new"
  "old \<noteq> [] \<Longrightarrow> ReplaceAll [] old new = []"
  by (cases old; auto simp: ReplaceAll_def)+

lemma modifyMessage_no_content:
  "contentOf msg = None \<Longrightarrow> modifyMessage kvs msg = ([], msg)"
  by (auto simp: contentOf_def modifyMessage_def split: json.splits option.splits)

lemma modifyMessage_content:
  assumes "contentOf msg = Some c"
  shows "modifyMessage kvs msg =
     (LogOriginalPrompt c #
        (if applyModifications kvs c \<noteq> c then [LogModifiedPrompt (applyModifications kvs c)] else []),
      JObject (AList.update ''content'' (JString (applyModifications kvs c)) (fields_of msg)))"
  using assms
  by (auto simp: contentOf_def modifyMessage_def Let_def split: json.splits option.splits)

lemma contentOf_object:
  "contentOf msg = Some c \<Longrightarrow> msg = JObject (fields_of msg) \<and> map_of (fields_of msg) ''content'' = Some (JString c)"
  by (auto simp: contentOf_def split: json.splits option.splits)

lemma length_modifyMessages: "length (snd (modifyMessages ord i ms)) = length ms"
  by (induction ms arbitrary: i) (simp_all add: split_beta Let_def)

lemma nth_modifyMessages:
  "j < length ms \<Longrightarrow> snd (modifyMessages ord i ms) ! j = snd (modifyMessage (ord (i + j)) (ms ! j))"
proof (induction ms arbitrary: i j)
  case Nil
  then show ?case by simp
next
  case (Cons m ms)
  show ?case
  proof (cases j)
    case 0
    then show ?thesis by (simp add: split_beta Let_def)
  next
    case (Suc j')
    with Cons.prems have "j' < length ms" by simp
    from Cons.IH [OF this, of "Suc i"] Suc show ?thesis
      by (simp add: split_beta Let_def)
  qed
qed

lemma modifyRequest_no_messages:
  "messagesOf request = None \<Longrightarrow> modifyRequest ord request = ([], request)"
  by (auto simp: messagesOf_def modifyRequest_def split: json.splits option.splits)

lemma messagesOf_object:
  "messagesOf request = Some ms \<Longrightarrow>
   request = JObject (fields_of request) \<and> map_of (fields_of request) ''messages'' = Some (JArray ms)"
  by (auto simp: messagesOf_def split: json.splits option.splits)

lemma modifyRequest_messages:
  assumes "messagesOf request = Some ms"
  shows "modifyRequest ord request =
     (fst (modifyMessages ord 0 ms),
      JObject (AList.update ''messages'' (JArray (snd (modifyMessages ord 0 ms))) (fields_of request)))"
  using assms
  by (auto simp: messagesOf_def modifyRequest_def split_beta Let_def split: json.splits option.splits)

lemma keys_update_present:
  "map_of al k = Some v \<Longrightarrow> map fst (AList.update k v' al) = map fst al"
  by (induction al) auto

lemma modifyMessages_unchanged:
  assumes "\<forall>j c. j < length ms \<and> contentOf (ms ! j) = Some c \<longrightarrow>
             (\<forall>(k, r) \<in> set (ord (i + j)). \<not> Contains c k)"
  shows "snd (modifyMessages ord i ms) = ms"
proof (rule nth_equalityI)
  show "length (snd (modifyMessages ord i ms)) = length ms"
    by (rule length_modifyMessages)
next
  fix j
  assume "j < length (snd (modifyMessages ord i ms))"
  then have j: "j < length ms" by (simp add: length_modifyMessages)
  show "snd (modifyMessages ord i ms) ! j = ms ! j"
  proof (cases "contentOf (ms ! j)")
    case None
    with j show ?thesis by (simp add: nth_modifyMessages modifyMessage_no_content)
  next
    case (Some c)
    with assms j have "applyModifications (ord (i + j)) c = c"
      by (intro applyModifications_absent) blast
    with Some j contentOf_object [OF Some] show ?thesis
      by (simp add: nth_modifyMessages modifyMessage_content update_triv)
  qed
qed

lemma modifyRequest_unchanged:
  assumes "\<forall>ms i c. messagesOf request = Some ms \<and> i < length ms \<and> contentOf (ms ! i) = Some c \<longrightarrow>
             (\<forall>(k, r) \<in> set (ord i). \<not> Contains c k)"
  shows "snd (modifyRequest ord request) = request"
proof (cases "messagesOf request")
  case None
  then show ?thesis by (simp add: modifyRequest_no_messages)
next
  case (Some ms)
  with assms have "snd (modifyMessages ord 0 ms) = ms"
    by (intro modifyMessages_unchanged) simp
  with Some messagesOf_object [OF Some] show ?thesis
    by (simp add: modifyRequest_messages update_triv)
qed

lemma messagesOf_modifyRequest:
  "messagesOf request = Some ms \<Longrightarrow>
   messagesOf (snd (modifyRequest ord request)) = Some (snd (modifyMessages ord 0 ms))"
  by (simp add: modifyRequest_messages messagesOf_def update_conv')

lemma frame_request:
  assumes "messagesOf request = Some ms"
  shows "request = JObject (fields_of request)
    \<and> snd (modifyRequest ord request) = JObject (fields_of (snd (modifyRequest ord request)))
    \<and> map fst (fields_of (snd (modifyRequest ord request))) = map fst (fields_of request)
    \<and> (\<forall>k. k \<noteq> ''messages'' \<longrightarrow>
          map_of (fields_of (snd (modifyRequest ord request))) k = map_of (fields_of request) k)"
  using messagesOf_object [OF assms]
  by (simp add: modifyRequest_messages [OF assms] keys_update_present update_conv')

lemma frame_message:
  assumes "i < length ms"
  shows "(contentOf (ms ! i) = None \<longrightarrow> snd (modifyMessages ord 0 ms) ! i = ms ! i)
    \<and> (\<forall>c. contentOf (ms ! i) = Some c \<longrightarrow>
          ms ! i = JObject (fields_of (ms ! i))
          \<and> snd (modifyMessages ord 0 ms) ! i = JObject (fields_of (snd (modifyMessages ord 0 ms) ! i))
          \<and> map fst (fields_of (snd (modifyMessages ord 0 ms) ! i)) = map fst (fields_of (ms ! i))
          \<and> (\<forall>k. k \<noteq> ''content'' \<longrightarrow>
                map_of (fields_of (snd (modifyMessages ord 0 ms) ! i)) k = map_of (fields_of (ms ! i)) k)
          \<and> contentOf (snd (modifyMessages ord 0 ms) ! i) = Some (applyModifications (ord i) c))"
proof (intro conjI allI impI)
  assume "contentOf (ms ! i) = None"
  with assms show "snd (modifyMessages ord 0 ms) ! i = ms ! i"
    by (simp add: nth_modifyMessages modifyMessage_no_content)
next
  fix c
  assume c: "contentOf (ms ! i) = Some c"
  from contentOf_object [OF c] show "ms ! i = JObject (fields_of (ms ! i))"
    by simp
  from assms c have new: "snd (modifyMessages ord 0 ms) ! i =
      JObject (AList.update ''content'' (JString (applyModifications (ord i) c)) (fields_of (ms ! i)))"
    by (simp add: nth_modifyMessages modifyMessage_content)
  then show "snd (modifyMessages ord 0 ms) ! i = JObject (fields_of (snd (modifyMessages ord 0 ms) ! i))"
    by simp
  from new contentOf_object [OF c]
  show "map fst (fields_of (snd (modifyMessages ord 0 ms) ! i)) = map fst (fields_of (ms ! i))"
    by (simp add: keys_update_present)
  from new
  show "contentOf (snd (modifyMessages ord 0 ms) ! i) = Some (applyModifications (ord i) c)"
    by (simp add: contentOf_def update_conv')
  fix k :: string
  assume "k \<noteq> ''content''"
  with new
  show "map_of (fields_of (snd (modifyMessages ord 0 ms) ! i)) k = map_of (fields_of (ms ! i)) k"
    by (simp add: update_conv')
qed

lemma list_all_enumerate:
  "list_all P (enumerate 0 xs) \<longleftrightarrow> (\<forall>i < length xs. P (i, xs ! i))"
  by (simp add: list_all_length nth_enumerate_eq)

lemma keywordFree_iff:
  "keywordFree ord request \<longleftrightarrow>
   (\<forall>ms i c. messagesOf request = Some ms \<and> i < length ms \<and> contentOf (ms ! i) = Some c \<longrightarrow>
      (\<forall>(k, r) \<in> set (ord i). \<not> Contains c k))"
proof (cases "messagesOf request")
  case None
  then show ?thesis by (simp add: keywordFree_def)
next
  case (Some ms)
  have "keywordFree ord request \<longleftrightarrow>
        (\<forall>i < length ms. case contentOf (ms ! i) of
                            None \<Rightarrow> True
                          | Some c \<Rightarrow> list_all (\<lambda>(k, r). \<not> Contains c k) (ord i))"
    by (simp add: keywordFree_def Some list_all_enumerate)
  also have "\<dots> \<longleftrightarrow> (\<forall>i c. i < length ms \<and> contentOf (ms ! i) = Some c \<longrightarrow>
                         (\<forall>(k, r) \<in> set (ord i). \<not> Contains c k))"
    by (fastforce simp: list_all_iff split: option.splits)
  finally show ?thesis by (simp add: Some)
qed

lemma messagesOf_update:
  "messagesOf (JObject (AList.update ''messages'' (JArray ms') r)) = Some ms'"
  by (simp add: messagesOf_def update_conv')

lemma contentOf_update:
  "contentOf (JObject (AList.update ''content'' (JString c') m)) = Some c'"
  by (simp add: contentOf_def update_conv')

lemma modified_in_log:
  "LogModifiedPrompt c \<in> set (fst (modifyMessages ord i ms)) \<Longrightarrow>
   \<exists>j c0. j < length ms \<and> contentOf (ms ! j) = Some c0
     \<and> c = applyModifications (ord (i + j)) c0 \<and> c \<noteq> c0"
proof (induction ms arbitrary: i)
  case Nil
  then show ?case by simp
next
  case (Cons m ms)
  from Cons.prems
  consider (here) "LogModifiedPrompt c \<in> set (fst (modifyMessage (ord i) m))"
    | (later) "LogModifiedPrompt c \<in> set (fst (modifyMessages ord (Suc i) ms))"
    by (auto simp: split_beta Let_def)
  then show ?case
  proof cases
    case here
    show ?thesis
    proof (cases "contentOf m")
      case None
      with here show ?thesis by (simp add: modifyMessage_no_content)
    next
      case (Some c0)
      with here have "c = applyModifications (ord i) c0 \<and> c \<noteq> c0"
        by (auto simp: modifyMessage_content split: if_splits)
      then have "c = applyModifications (ord (i + 0)) c0" and "c \<noteq> c0" by auto
      with Some show ?thesis by (intro exI [of _ 0] exI [of _ c0]) auto
    qed
  next
    case later
    from Cons.IH [OF later] obtain j c0 where
      "j < length ms" "contentOf (ms ! j) = Some c0"
      "c = applyModifications (ord (Suc i + j)) c0" "c \<noteq> c0"
      by blast
    then show ?thesis by (intro exI [of _ "Suc j"] exI [of _ c0]) simp
  qed
qed

lemma no_content_no_log:
  "list_all (\<lambda>msg. contentOf msg = None) ms \<Longrightarrow> modifyMessages ord i ms = ([], ms)"
  by (induction ms arbitrary: i) (simp_all add: modifyMessage_no_content)

lemma modifyRequest_noStringContent:
  "noStringContent request \<Longrightarrow> modifyRequest ord request = ([], request)"
proof (cases "messagesOf request")
  case None
  then show ?thesis by (simp add: modifyRequest_no_messages)
next
  case (Some ms)
  assume "noStringContent request"
  with Some have "modifyMessages ord 0 ms = ([], ms)"
    by (simp add: noStringContent_def no_content_no_log)
  with Some messagesOf_object [OF Some] show ?thesis
    by (simp add: modifyRequest_messages update_triv)
qed

text \<open>
  Claim C3 as stated fails: the table is a Go map, whose entries the loop
  visits in no fixed order, and the rewritten content depends on that order.
  With the table \<^verbatim>\<open>cat\<close> to \<^verbatim>\<open>dog\<close>, \<^verbatim>\<open>dog\<close> to \<^verbatim>\<open>bird\<close>, both sequences below are
  orders in which the loop may visit it; for the content \<^verbatim>\<open>cat\<close> the first
  forwards \<^verbatim>\<open>bird\<close> and the second \<^verbatim>\<open>dog\<close>.
\<close>

theorem rewrite_depends_on_iteration_order:
  \<open>rangeOrder chainTable (catFirst 0) \<and> rangeOrder chainTable (dogFirst 0)
   \<and> snd (modifyRequestBody refUnmarshal refMarshal catFirst catBody) =
       ''{"messages":[{"content":"bird","role":"user"}]}''
   \<and> snd (modifyRequestBody refUnmarshal refMarshal dogFirst catBody) =
       ''{"messages":[{"content":"dog","role":"user"}]}''\<close>
  by code_simp

text \<open>
  Claim C3, amended. For every message of the \<^verbatim>\<open>messages\<close> array whose
  \<^verbatim>\<open>content\<close> is a string, the rewritten request has at the same index a message
  whose content is the original content with the pairs applied one after the
  other by \<^verbatim>\<open>strings.ReplaceAll\<close> (non-overlapping occurrences, scanned from the
  left, see \<open>ReplaceAll_scan\<close>), in the order \<open>ord i\<close> in which the loop visits
  the table for that message. The result is a function of the content and of
  that order.
\<close>

theorem content_rewritten_in_iteration_order:
  assumes "messagesOf request = Some ms" and "i < length ms" and "contentOf (ms ! i) = Some c"
  shows "\<exists>ms'. messagesOf (snd (modifyRequest ord request)) = Some ms'
           \<and> length ms' = length ms
           \<and> contentOf (ms' ! i) = Some (foldl (\<lambda>s (k, r). ReplaceAll s k r) c (ord i))"
proof -
  define ms' where "ms' = snd (modifyMessages ord 0 ms)"
  have "messagesOf (snd (modifyRequest ord request)) = Some ms'"
    by (simp add: modifyRequest_messages [OF assms(1)] messagesOf_update ms'_def)
  moreover have "length ms' = length ms"
    by (simp add: ms'_def length_modifyMessages)
  moreover from assms(2,3)
  have "contentOf (ms' ! i) = Some (foldl (\<lambda>s (k, r). ReplaceAll s k r) c (ord i))"
    by (simp add: ms'_def nth_modifyMessages modifyMessage_content contentOf_update
        applyModifications_foldl)
  ultimately show ?thesis by blast
qed

theorem content_rewritten_in_iteration_order_witness:
  "\<exists>ms'. messagesOf (snd (modifyRequest exampleOrder exampleRequest)) = Some ms'
         \<and> length ms' = 2 \<and> contentOf (ms' ! 0) = Some ''hello nice''"
proof -
  have 1: "messagesOf exampleRequest = Some exampleMessages" by code_simp
  have 2: "0 < length exampleMessages" by code_simp
  have 3: "contentOf (exampleMessages ! 0) = Some ''hello BADWORD''" by code_simp
  have 4: "foldl (\<lambda>s (k, r). ReplaceAll s k r) ''hello BADWORD'' (exampleOrder 0) = ''hello nice''"
    by code_simp
  have 5: "length exampleMessages = 2" by code_simp
  from content_rewritten_in_iteration_order [OF 1 2 3, of exampleOrder] 4 5
  show ?thesis by simp
qed

text \<open>
  Claim C4 as stated fails: a body that decodes is always encoded again, and
  the encoder writes the keys of an object in sorted order and no white
  space. The body below has \<^verbatim>\<open>model\<close> before \<^verbatim>\<open>messages\<close> and no keyword in its
  content; the forwarded body has \<^verbatim>\<open>messages\<close> first.
\<close>

theorem reserialised_body_not_identical:
  "refUnmarshal chatBody = Inr chatRequest \<and> keywordFree exampleOrder chatRequest
   \<and> snd (modifyRequestBody refUnmarshal refMarshal exampleOrder chatBody) = sortedBody
   \<and> sortedBody \<noteq> chatBody"
  by code_simp

text \<open>
  Claim C4, amended. When the body decodes and no keyword of the table occurs
  in the string content of any message, the rewriter leaves the decoded
  request as it is, and the forwarded body is what the encoder returns for
  that decoded request (the original body when the encoder returns an error);
  so it is the original body, byte for byte, exactly when the encoder returns
  the original bytes for the decoded request, or an error. A body that does
  not decode is forwarded byte for byte.
\<close>

theorem no_keyword_body_reserialised:
  "(unm body = Inl err \<longrightarrow> snd (modifyRequestBody unm mar ord body) = body)
   \<and> (unm body = Inr request \<and> keywordFree ord request \<longrightarrow>
        snd (modifyRequest ord request) = request
        \<and> snd (modifyRequestBody unm mar ord body) =
            (case mar request of Inr b \<Rightarrow> b | Inl e \<Rightarrow> body)
        \<and> (snd (modifyRequestBody unm mar ord body) = body) =
            (mar request = Inr body \<or> (\<exists>e. mar request = Inl e)))"
proof (intro conjI impI)
  assume "unm body = Inl err"
  then show "snd (modifyRequestBody unm mar ord body) = body"
    by (simp add: modifyRequestBody_def)
next
  assume "unm body = Inr request \<and> keywordFree ord request"
  then have a: "unm body = Inr request" and k: "keywordFree ord request" by simp_all
  from k show same: "snd (modifyRequest ord request) = request"
    by (intro modifyRequest_unchanged) (simp add: keywordFree_iff)
  with a show fwd: "snd (modifyRequestBody unm mar ord body) =
      (case mar request of Inr b \<Rightarrow> b | Inl e \<Rightarrow> body)"
    by (simp add: modifyRequestBody_def split_beta Let_def split: sum.splits)
  show "(snd (modifyRequestBody unm mar ord body) = body) =
      (mar request = Inr body \<or> (\<exists>e. mar request = Inl e))"
    unfolding fwd by (cases "mar request") auto
qed

theorem no_keyword_body_reserialised_witness:
  "snd (modifyRequestBody refUnmarshal refMarshal exampleOrder chatBody) = sortedBody
   \<and> snd (modifyRequestBody refUnmarshal refMarshal exampleOrder sortedBody) = sortedBody
   \<and> snd (modifyRequestBody refUnmarshal refMarshal exampleOrder ''not json'') = ''not json''"
proof -
  have 1: "refUnmarshal chatBody = Inr chatRequest" by code_simp
  have 2: "keywordFree exampleOrder chatRequest" by code_simp
  have 3: "refMarshal chatRequest = Inr sortedBody" by code_simp
  have 4: "refUnmarshal sortedBody = Inr (JObject [(''messages'', JArray [JObject [(''content'', JString ''hello''),
             (''role'', JString ''user'')]]), (''model'', JString ''gpt-4'')])" by code_simp
  have 5: "keywordFree exampleOrder (JObject [(''messages'', JArray [JObject [(''content'', JString ''hello''),
             (''role'', JString ''user'')]]), (''model'', JString ''gpt-4'')])" by code_simp
  have 6: "refMarshal (JObject [(''messages'', JArray [JObject [(''content'', JString ''hello''),
             (''role'', JString ''user'')]]), (''model'', JString ''gpt-4'')]) = Inr sortedBody" by code_simp
  have 7: "refUnmarshal ''not json'' = Inl SyntaxError" by code_simp
  from no_keyword_body_reserialised
      [of refUnmarshal chatBody _ refMarshal exampleOrder chatRequest] 1 2 3
  have a: "snd (modifyRequestBody refUnmarshal refMarshal exampleOrder chatBody) = sortedBody"
    by simp
  from no_keyword_body_reserialised
      [of refUnmarshal sortedBody _ refMarshal exampleOrder] 4 5 6
  have b: "snd (modifyRequestBody refUnmarshal refMarshal exampleOrder sortedBody) = sortedBody"
    by simp
  from no_keyword_body_reserialised
      [of refUnmarshal "''not json''" SyntaxError refMarshal exampleOrder] 7
  have c: "snd (modifyRequestBody refUnmarshal refMarshal exampleOrder ''not json'') = ''not json''"
    by blast
  from a b c show ?thesis by simp
qed

text \<open>
  Claim C5 as stated fails for a body that is valid JSON and not chat-shaped:
  it decodes, so it is encoded again, and the forwarded bytes are the
  encoder's. The first body below is an object without \<^verbatim>\<open>messages\<close> and with a
  space after the colon; the forwarded body has no space. The second has a
  \<^verbatim>\<open>messages\<close> array whose first element is no object, so it is not
  chat-shaped either; its second element has a string content with a keyword,
  which is rewritten, and the rewritten prompt is logged.
\<close>

theorem unshaped_body_reserialised:
  \<open>refUnmarshal promptBody = Inr promptRequest \<and> \<not> specChatShaped promptRequest
   \<and> snd (modifyRequestBody refUnmarshal refMarshal exampleOrder promptBody) = ''{"prompt":"hello"}''
   \<and> ''{"prompt":"hello"}'' \<noteq> promptBody
   \<and> refUnmarshal mixedBody =
       Inr (JObject [(''messages'',
              JArray [JBool True, JObject [(''content'', JString ''hello BADWORD'')]])])
   \<and> \<not> specChatShaped (JObject [(''messages'',
              JArray [JBool True, JObject [(''content'', JString ''hello BADWORD'')]])])
   \<and> modifyRequestBody refUnmarshal refMarshal exampleOrder mixedBody =
       ([LogOriginalPrompt ''hello BADWORD'', LogModifiedPrompt ''hello nice''],
        ''{"messages":[true,{"content":"hello nice"}]}'')\<close>
  by code_simp

text \<open>
  Claim C5, amended. When the decoder returns an error for the body, the
  forwarded bytes are the original bytes and the only log entry is that
  error. When the decoder returns a value, chat-shaped or not (the decoder
  returns one for \<^verbatim>\<open>null\<close> too), the forwarded bytes are what the encoder
  returns for the value after the rewriting of the messages that have a
  string content (the original bytes, with the error logged, when the encoder
  returns an error); a rewritten prompt is logged only for a message with a
  string content that the replacements change; and when no message has a
  string content (no \<^verbatim>\<open>messages\<close> array, or no element with one), nothing is
  logged and the forwarded bytes are the encoder's for the decoded value as
  it is. In every case \<^verbatim>\<open>modifyRequestBody\<close> returns, and a request that is not
  an \<^verbatim>\<open>OPTIONS\<close> request goes on to a relay with the returned body.
\<close>

theorem undecodable_body_forwarded_unchanged:
  "(unm body = Inl err \<longrightarrow>
      modifyRequestBody unm mar ord body = ([LogRequestParseError err], body))
   \<and> (unm body = Inr request \<longrightarrow>
      modifyRequestBody unm mar ord body =
        (case mar (snd (modifyRequest ord request)) of
           Inr modifiedBody \<Rightarrow> (fst (modifyRequest ord request), modifiedBody)
         | Inl e \<Rightarrow> (fst (modifyRequest ord request) @ [LogMarshalError e], body)))
   \<and> (unm body = Inr request \<longrightarrow>
      (\<forall>c. LogModifiedPrompt c \<in> set (fst (modifyRequestBody unm mar ord body)) \<longrightarrow>
         (\<exists>ms i c0. messagesOf request = Some ms \<and> i < length ms
            \<and> contentOf (ms ! i) = Some c0
            \<and> c = applyModifications (ord i) c0 \<and> c \<noteq> c0)))
   \<and> (unm body = Inr request \<and> noStringContent request \<longrightarrow>
      modifyRequestBody unm mar ord body =
        (case mar request of
           Inr modifiedBody \<Rightarrow> ([], modifiedBody)
         | Inl e \<Rightarrow> ([LogMarshalError e], body)))
   \<and> (req_body req = Body body \<and> req_method req \<noteq> ''OPTIONS'' \<longrightarrow>
      snd (handleProxy unm mar ord req) =
        StreamRelay (req\<lparr>req_body := Body (snd (modifyRequestBody unm mar ord body)),
          req_ContentLength := int (length (snd (modifyRequestBody unm mar ord body)))\<rparr>)
      \<or> snd (handleProxy unm mar ord req) =
        NonStreamRelay (req\<lparr>req_body := Body (snd (modifyRequestBody unm mar ord body)),
          req_ContentLength := int (length (snd (modifyRequestBody unm mar ord body)))\<rparr>))"
proof (intro conjI impI allI)
  assume "unm body = Inl err"
  then show "modifyRequestBody unm mar ord body = ([LogRequestParseError err], body)"
    by (simp add: modifyRequestBody_def)
next
  assume "unm body = Inr request"
  then show "modifyRequestBody unm mar ord body =
        (case mar (snd (modifyRequest ord request)) of
           Inr modifiedBody \<Rightarrow> (fst (modifyRequest ord request), modifiedBody)
         | Inl e \<Rightarrow> (fst (modifyRequest ord request) @ [LogMarshalError e], body))"
    by (simp add: modifyRequestBody_def split_beta split: sum.splits)
next
  fix c
  assume u: "unm body = Inr request"
    and c: "LogModifiedPrompt c \<in> set (fst (modifyRequestBody unm mar ord body))"
  from u c have in_req: "LogModifiedPrompt c \<in> set (fst (modifyRequest ord request))"
    by (auto simp: modifyRequestBody_def split_beta split: sum.splits)
  show "\<exists>ms i c0. messagesOf request = Some ms \<and> i < length ms
            \<and> contentOf (ms ! i) = Some c0
            \<and> c = applyModifications (ord i) c0 \<and> c \<noteq> c0"
  proof (cases "messagesOf request")
    case None
    with in_req show ?thesis by (simp add: modifyRequest_no_messages)
  next
    case (Some ms)
    with in_req have "LogModifiedPrompt c \<in> set (fst (modifyMessages ord 0 ms))"
      by (simp add: modifyRequest_messages)
    from modified_in_log [OF this] Some show ?thesis by auto
  qed
next
  assume "unm body = Inr request \<and> noStringContent request"
  then show "modifyRequestBody unm mar ord body =
        (case mar request of
           Inr modifiedBody \<Rightarrow> ([], modifiedBody)
         | Inl e \<Rightarrow> ([LogMarshalError e], body))"
    by (simp add: modifyRequestBody_def modifyRequest_noStringContent split: sum.splits)
next
  assume "req_body req = Body body \<and> req_method req \<noteq> ''OPTIONS''"
  then have b: "req_body req = Body body" and "req_body req \<noteq> ReadError"
    and "req_method req \<noteq> ''OPTIONS''"
    by simp_all
  from handleProxy_relay [OF this(2,3), of unm mar ord] b
  show "snd (handleProxy unm mar ord req) =
        StreamRelay (req\<lparr>req_body := Body (snd (modifyRequestBody unm mar ord body)),
          req_ContentLength := int (length (snd (modifyRequestBody unm mar ord body)))\<rparr>)
      \<or> snd (handleProxy unm mar ord req) =
        NonStreamRelay (req\<lparr>req_body := Body (snd (modifyRequestBody unm mar ord body)),
          req_ContentLength := int (length (snd (modifyRequestBody unm mar ord body)))\<rparr>)"
    by (simp add: Let_def)
qed

theorem undecodable_body_forwarded_unchanged_witness:
  \<open>modifyRequestBody refUnmarshal refMarshal exampleOrder ''{"messages":''
     = ([LogRequestParseError SyntaxError], ''{"messages":'')
   \<and> modifyRequestBody refUnmarshal refMarshal exampleOrder ''["hello BADWORD"]''
     = ([LogRequestParseError UnmarshalTypeError], ''["hello BADWORD"]'')
   \<and> modifyRequestBody refUnmarshal refMarshal exampleOrder nullBody = ([], ''null'')
   \<and> modifyRequestBody refUnmarshal refMarshal exampleOrder flagBody
     = ([], ''{"messages":[true]}'')
   \<and> modifyRequestBody refUnmarshal refMarshal exampleOrder mixedBody
     = ([LogOriginalPrompt ''hello BADWORD'', LogModifiedPrompt ''hello nice''],
        ''{"messages":[true,{"content":"hello nice"}]}'')
   \<and> (\<exists>ms i c0.
        messagesOf (JObject [(''messages'',
          JArray [JBool True, JObject [(''content'', JString ''hello BADWORD'')]])]) = Some ms
        \<and> i < length ms \<and> contentOf (ms ! i) = Some c0
        \<and> ''hello nice'' = applyModifications (exampleOrder i) c0 \<and> ''hello nice'' \<noteq> c0)
   \<and> (snd (handleProxy refUnmarshal refMarshal exampleOrder flagRequest) =
        StreamRelay (flagRequest\<lparr>req_body := Body ''{"messages":[true]}'',
          req_ContentLength := 19\<rparr>)
      \<or> snd (handleProxy refUnmarshal refMarshal exampleOrder flagRequest) =
        NonStreamRelay (flagRequest\<lparr>req_body := Body ''{"messages":[true]}'',
          req_ContentLength := 19\<rparr>))\<close>
proof -
  have 1: \<open>refUnmarshal ''{"messages":'' = Inl SyntaxError\<close> by code_simp
  have 2: \<open>refUnmarshal ''["hello BADWORD"]'' = Inl UnmarshalTypeError\<close> by code_simp
  have 3: "refUnmarshal nullBody = Inr JNull \<and> noStringContent JNull" by code_simp
  have 4: \<open>refMarshal JNull = Inr ''null''\<close> by code_simp
  have 5: "refUnmarshal flagBody = Inr (JObject [(''messages'', JArray [JBool True])])
      \<and> noStringContent (JObject [(''messages'', JArray [JBool True])])" by code_simp
  have 6: \<open>refMarshal (JObject [(''messages'', JArray [JBool True])]) =
      Inr ''{"messages":[true]}''\<close> by code_simp
  have 7: "refUnmarshal mixedBody = Inr (JObject [(''messages'',
      JArray [JBool True, JObject [(''content'', JString ''hello BADWORD'')]])])" by code_simp
  have 8: \<open>modifyRequest exampleOrder (JObject [(''messages'',
      JArray [JBool True, JObject [(''content'', JString ''hello BADWORD'')]])]) =
      ([LogOriginalPrompt ''hello BADWORD'', LogModifiedPrompt ''hello nice''],
       JObject [(''messages'',
         JArray [JBool True, JObject [(''content'', JString ''hello nice'')]])])\<close>
    by code_simp
  have 9: \<open>refMarshal (JObject [(''messages'',
      JArray [JBool True, JObject [(''content'', JString ''hello nice'')]])]) =
      Inr ''{"messages":[true,{"content":"hello nice"}]}''\<close> by code_simp
  have 10: "req_body flagRequest = Body flagBody \<and> req_method flagRequest \<noteq> ''OPTIONS''"
    by code_simp
  from undecodable_body_forwarded_unchanged
      [of refUnmarshal _ SyntaxError refMarshal exampleOrder] 1
  have a: \<open>modifyRequestBody refUnmarshal refMarshal exampleOrder ''{"messages":''
     = ([LogRequestParseError SyntaxError], ''{"messages":'')\<close> by blast
  from undecodable_body_forwarded_unchanged
      [of refUnmarshal _ UnmarshalTypeError refMarshal exampleOrder] 2
  have b: \<open>modifyRequestBody refUnmarshal refMarshal exampleOrder ''["hello BADWORD"]''
     = ([LogRequestParseError UnmarshalTypeError], ''["hello BADWORD"]'')\<close> by blast
  from undecodable_body_forwarded_unchanged
      [of refUnmarshal nullBody _ refMarshal exampleOrder JNull] 3
  have "modifyRequestBody refUnmarshal refMarshal exampleOrder nullBody =
      (case refMarshal JNull of
         Inr modifiedBody \<Rightarrow> ([], modifiedBody)
       | Inl e \<Rightarrow> ([LogMarshalError e], nullBody))"
    by blast
  with 4
  have c: \<open>modifyRequestBody refUnmarshal refMarshal exampleOrder nullBody = ([], ''null'')\<close>
    by simp
  from undecodable_body_forwarded_unchanged
      [of refUnmarshal flagBody _ refMarshal exampleOrder
        "JObject [(''messages'', JArray [JBool True])]"] 5
  have "modifyRequestBody refUnmarshal refMarshal exampleOrder flagBody =
      (case refMarshal (JObject [(''messages'', JArray [JBool True])]) of
         Inr modifiedBody \<Rightarrow> ([], modifiedBody)
       | Inl e \<Rightarrow> ([LogMarshalError e], flagBody))"
    by blast
  with 6
  have d: \<open>modifyRequestBody refUnmarshal refMarshal exampleOrder flagBody
     = ([], ''{"messages":[true]}'')\<close>
    by simp
  note m = undecodable_body_forwarded_unchanged
      [of refUnmarshal mixedBody _ refMarshal exampleOrder
        "JObject [(''messages'',
           JArray [JBool True, JObject [(''content'', JString ''hello BADWORD'')]])]"]
  from m 7
  have "modifyRequestBody refUnmarshal refMarshal exampleOrder mixedBody =
      (case refMarshal (snd (modifyRequest exampleOrder (JObject [(''messages'',
           JArray [JBool True, JObject [(''content'', JString ''hello BADWORD'')]])]))) of
         Inr modifiedBody \<Rightarrow>
           (fst (modifyRequest exampleOrder (JObject [(''messages'',
              JArray [JBool True, JObject [(''content'', JString ''hello BADWORD'')]])])),
            modifiedBody)
       | Inl e \<Rightarrow>
           (fst (modifyRequest exampleOrder (JObject [(''messages'',
              JArray [JBool True, JObject [(''content'', JString ''hello BADWORD'')]])]))
              @ [LogMarshalError e], mixedBody))"
    by blast
  then
  have e: \<open>modifyRequestBody refUnmarshal refMarshal exampleOrder mixedBody
     = ([LogOriginalPrompt ''hello BADWORD'', LogModifiedPrompt ''hello nice''],
        ''{"messages":[true,{"content":"hello nice"}]}'')\<close>
    unfolding 8 by (simp add: 9)
  have l: "LogModifiedPrompt ''hello nice'' \<in>
      set (fst (modifyRequestBody refUnmarshal refMarshal exampleOrder mixedBody))"
    unfolding e by simp
  from m 7 l
  have f: "\<exists>ms i c0.
        messagesOf (JObject [(''messages'',
          JArray [JBool True, JObject [(''content'', JString ''hello BADWORD'')]])]) = Some ms
        \<and> i < length ms \<and> contentOf (ms ! i) = Some c0
        \<and> ''hello nice'' = applyModifications (exampleOrder i) c0 \<and> ''hello nice'' \<noteq> c0"
    by blast
  from undecodable_body_forwarded_unchanged
      [of refUnmarshal flagBody _ refMarshal exampleOrder _ flagRequest] 10
  have "snd (handleProxy refUnmarshal refMarshal exampleOrder flagRequest) =
        StreamRelay (flagRequest\<lparr>req_body :=
            Body (snd (modifyRequestBody refUnmarshal refMarshal exampleOrder flagBody)),
          req_ContentLength :=
            int (length (snd (modifyRequestBody refUnmarshal refMarshal exampleOrder flagBody)))\<rparr>)
      \<or> snd (handleProxy refUnmarshal refMarshal exampleOrder flagRequest) =
        NonStreamRelay (flagRequest\<lparr>req_body :=
            Body (snd (modifyRequestBody refUnmarshal refMarshal exampleOrder flagBody)),
          req_ContentLength :=
            int (length (snd (modifyRequestBody refUnmarshal refMarshal exampleOrder flagBody)))\<rparr>)"
    by blast
  then have g: \<open>snd (handleProxy refUnmarshal refMarshal exampleOrder flagRequest) =
        StreamRelay (flagRequest\<lparr>req_body := Body ''{"messages":[true]}'',
          req_ContentLength := 19\<rparr>)
      \<or> snd (handleProxy refUnmarshal refMarshal exampleOrder flagRequest) =
        NonStreamRelay (flagRequest\<lparr>req_body := Body ''{"messages":[true]}'',
          req_ContentLength := 19\<rparr>)\<close>
    unfolding d by simp
  from a b c d e f g show ?thesis by blast
qed

text \<open>
  Claim C7. Lines 208 to 232 on a decoded request. A request without a
  \<^verbatim>\<open>messages\<close> array is left as it is. Otherwise the result is an object with the
  same keys in the same order, every field other than \<^verbatim>\<open>messages\<close> has its
  value, and \<^verbatim>\<open>messages\<close> is an array of the same length in which, at each
  index, a message without a string \<^verbatim>\<open>content\<close> is the message that was there,
  and a message with one is an object with the same keys and the same value
  for every field other than \<^verbatim>\<open>content\<close>.
\<close>

theorem rewrite_preserves_frame:
  "(messagesOf request = None \<longrightarrow> snd (modifyRequest ord request) = request)
   \<and> (messagesOf request = Some ms \<longrightarrow>
        request = JObject (fields_of request)
        \<and> snd (modifyRequest ord request) = JObject (fields_of (snd (modifyRequest ord request)))
        \<and> map fst (fields_of (snd (modifyRequest ord request))) = map fst (fields_of request)
        \<and> (\<forall>k. k \<noteq> ''messages'' \<longrightarrow>
              map_of (fields_of (snd (modifyRequest ord request))) k = map_of (fields_of request) k)
        \<and> (\<exists>ms'. messagesOf (snd (modifyRequest ord request)) = Some ms'
              \<and> length ms' = length ms
              \<and> (\<forall>i < length ms.
                    (contentOf (ms ! i) = None \<longrightarrow> ms' ! i = ms ! i)
                    \<and> (\<forall>c. contentOf (ms ! i) = Some c \<longrightarrow>
                          ms ! i = JObject (fields_of (ms ! i))
                          \<and> ms' ! i = JObject (fields_of (ms' ! i))
                          \<and> map fst (fields_of (ms' ! i)) = map fst (fields_of (ms ! i))
                          \<and> (\<forall>k. k \<noteq> ''content'' \<longrightarrow>
                                map_of (fields_of (ms' ! i)) k = map_of (fields_of (ms ! i)) k)
                          \<and> contentOf (ms' ! i) = Some (applyModifications (ord i) c)))))"
proof (intro conjI impI)
  assume "messagesOf request = None"
  then show "snd (modifyRequest ord request) = request"
    by (simp add: modifyRequest_no_messages)
next
  assume ms: "messagesOf request = Some ms"
  from frame_request [OF ms, of ord]
  show "request = JObject (fields_of request)"
    and "snd (modifyRequest ord request) = JObject (fields_of (snd (modifyRequest ord request)))"
    and "map fst (fields_of (snd (modifyRequest ord request))) = map fst (fields_of request)"
    and "\<forall>k. k \<noteq> ''messages'' \<longrightarrow>
              map_of (fields_of (snd (modifyRequest ord request))) k = map_of (fields_of request) k"
    by blast+
  show "\<exists>ms'. messagesOf (snd (modifyRequest ord request)) = Some ms'
              \<and> length ms' = length ms
              \<and> (\<forall>i < length ms.
                    (contentOf (ms ! i) = None \<longrightarrow> ms' ! i = ms ! i)
                    \<and> (\<forall>c. contentOf (ms ! i) = Some c \<longrightarrow>
                          ms ! i = JObject (fields_of (ms ! i))
                          \<and> ms' ! i = JObject (fields_of (ms' ! i))
                          \<and> map fst (fields_of (ms' ! i)) = map fst (fields_of (ms ! i))
                          \<and> (\<forall>k. k \<noteq> ''content'' \<longrightarrow>
                                map_of (fields_of (ms' ! i)) k = map_of (fields_of (ms ! i)) k)
                          \<and> contentOf (ms' ! i) = Some (applyModifications (ord i) c)))"
  proof (intro exI conjI allI impI)
    show "messagesOf (snd (modifyRequest ord request)) = Some (snd (modifyMessages ord 0 ms))"
      by (rule messagesOf_modifyRequest [OF ms])
    show "length (snd (modifyMessages ord 0 ms)) = length ms"
      by (rule length_modifyMessages)
  qed (use frame_message [of _ ms ord] in blast)+
qed

theorem rewrite_preserves_frame_witness:
  "snd (modifyRequest exampleOrder promptRequest) = promptRequest
   \<and> map_of (fields_of (snd (modifyRequest exampleOrder exampleRequest))) ''model'' =
       Some (JString ''gpt-4'')
   \<and> (\<exists>ms'. messagesOf (snd (modifyRequest exampleOrder exampleRequest)) = Some ms'
         \<and> length ms' = 2 \<and> ms' ! 1 = exampleMessages ! 1
         \<and> map_of (fields_of (ms' ! 0)) ''role'' = Some (JString ''user'')
         \<and> contentOf (ms' ! 0) = Some ''hello nice'')"
proof -
  have 1: "messagesOf promptRequest = None" by code_simp
  have 2: "messagesOf exampleRequest = Some exampleMessages" by code_simp
  have 3: "length exampleMessages = 2" by code_simp
  have 4: "contentOf (exampleMessages ! 1) = None" by code_simp
  have 5: "map_of (fields_of exampleRequest) ''model'' = Some (JString ''gpt-4'')" by code_simp
  have 6: "contentOf (exampleMessages ! 0) = Some ''hello BADWORD''" by code_simp
  have 7: "map_of (fields_of (exampleMessages ! 0)) ''role'' = Some (JString ''user'')"
    by code_simp
  have 8: "applyModifications (exampleOrder 0) ''hello BADWORD'' = ''hello nice''" by code_simp
  from rewrite_preserves_frame [of promptRequest exampleOrder] 1
  have a: "snd (modifyRequest exampleOrder promptRequest) = promptRequest"
    by (rule conjunct1 [THEN mp])
  note t = rewrite_preserves_frame [of exampleRequest exampleOrder exampleMessages,
      THEN conjunct2, THEN mp, OF 2]
  from t have "\<forall>k. k \<noteq> ''messages'' \<longrightarrow>
      map_of (fields_of (snd (modifyRequest exampleOrder exampleRequest))) k =
      map_of (fields_of exampleRequest) k"
    by (elim conjE)
  with 5 have b: "map_of (fields_of (snd (modifyRequest exampleOrder exampleRequest))) ''model'' =
       Some (JString ''gpt-4'')"
    by simp
  from t obtain ms' where
    m: "messagesOf (snd (modifyRequest exampleOrder exampleRequest)) = Some ms'"
    and l: "length ms' = length exampleMessages"
    and e: "\<forall>i < length exampleMessages.
              (contentOf (exampleMessages ! i) = None \<longrightarrow> ms' ! i = exampleMessages ! i)
              \<and> (\<forall>c. contentOf (exampleMessages ! i) = Some c \<longrightarrow>
                    exampleMessages ! i = JObject (fields_of (exampleMessages ! i))
                    \<and> ms' ! i = JObject (fields_of (ms' ! i))
                    \<and> map fst (fields_of (ms' ! i)) = map fst (fields_of (exampleMessages ! i))
                    \<and> (\<forall>k. k \<noteq> ''content'' \<longrightarrow>
                          map_of (fields_of (ms' ! i)) k = map_of (fields_of (exampleMessages ! i)) k)
                    \<and> contentOf (ms' ! i) = Some (applyModifications (exampleOrder i) c))"
    by (elim conjE exE)
  from e 3 4 have c: "ms' ! 1 = exampleMessages ! 1" by simp
  from e 3 6 have
    "(\<forall>k. k \<noteq> ''content'' \<longrightarrow>
        map_of (fields_of (ms' ! 0)) k = map_of (fields_of (exampleMessages ! 0)) k)
     \<and> contentOf (ms' ! 0) = Some (applyModifications (exampleOrder 0) ''hello BADWORD'')"
    by simp
  with 7 8 have d: "map_of (fields_of (ms' ! 0)) ''role'' = Some (JString ''user'')
      \<and> contentOf (ms' ! 0) = Some ''hello nice''"
    by simp
  from a b c d m l 3 show ?thesis by simp
qed

section \<open>The buffered relay\<close>

text \<open>
  Claim C2 at an upstream response with status 200, content type
  \<^verbatim>\<open>application/json\<close>, no \<^verbatim>\<open>Content-Length\<close> and a body of 14 bytes: the status and
  the content type reach the client as the upstream sent them, and the client's
  writer gets
  two \<^verbatim>\<open>Write\<close> calls with the body, so the client receives the body twice,
  where the claim has it delivered once.
\<close>

theorem buffered_relay_writes_body_twice:
  \<open>received (snd (handleNonStreamRequest refUnmarshal exampleResponse ([], newResponseWriter))) =
     ''{"choices":[]}{"choices":[]}''
   \<and> rw_writes (snd (handleNonStreamRequest refUnmarshal exampleResponse ([], newResponseWriter))) =
     [''{"choices":[]}'', ''{"choices":[]}'']
   \<and> rw_sent (snd (handleNonStreamRequest refUnmarshal exampleResponse ([], newResponseWriter))) =
     Some (200, [(''Content-Type'', [''application/json''])])\<close>
proof -
  have c: \<open>chunksOf 32768 ''{"choices":[]}'' = [''{"choices":[]}'']\<close>
    by (rule chunksOf_short) simp_all
  have l: \<open>logResponse exampleResponse =
      ([LogResponse 200 ''{"choices":[]}''], exampleResponse)\<close>
    by (simp add: logResponse_def exampleResponse_def Header_Del_def Header_Get_def Let_def c)
  have w: \<open>copyResponse (\<lambda>bw. rw_header (bw_ResponseWriter bw))
              (\<lambda>h bw. bw\<lparr>bw_ResponseWriter := (bw_ResponseWriter bw)\<lparr>rw_header := h\<rparr>\<rparr>)
              responseBodyWriter_WriteHeader responseBodyWriter_Write exampleResponse
              \<lparr>bw_ResponseWriter = newResponseWriter, bw_body = [], bw_statusCode = 0\<rparr> =
      \<lparr>bw_ResponseWriter =
         \<lparr>rw_header = [(''Content-Type'', [''application/json''])], rw_status = 200,
          rw_sent = Some (200, [(''Content-Type'', [''application/json''])]),
          rw_writes = [''{"choices":[]}'']\<rparr>,
       bw_body = ''{"choices":[]}'', bw_statusCode = 200\<rparr>\<close>
    by code_simp
  have d: \<open>gin_Data 200 ''application/json'' ''{"choices":[]}''
         \<lparr>rw_header = [(''Content-Type'', [''application/json''])], rw_status = 200,
          rw_sent = Some (200, [(''Content-Type'', [''application/json''])]),
          rw_writes = [''{"choices":[]}'']\<rparr> =
         \<lparr>rw_header = [(''Content-Type'', [''application/json''])], rw_status = 200,
          rw_sent = Some (200, [(''Content-Type'', [''application/json''])]),
          rw_writes = [''{"choices":[]}'', ''{"choices":[]}'']\<rparr>\<close>
    by code_simp
  have g: \<open>Header_Get [(''Content-Type'', [''application/json''])] ''Content-Type'' = ''application/json''\<close>
    by code_simp
  have h: \<open>snd (handleNonStreamRequest refUnmarshal exampleResponse ([], newResponseWriter)) =
         \<lparr>rw_header = [(''Content-Type'', [''application/json''])], rw_status = 200,
          rw_sent = Some (200, [(''Content-Type'', [''application/json''])]),
          rw_writes = [''{"choices":[]}'', ''{"choices":[]}'']\<rparr>\<close>
    by (simp add: handleNonStreamRequest_def Let_def l w d g)
  show ?thesis by (simp add: h received_def)
qed

end
